theory Spec2Isabelle
  imports Main "HOL-Library.Multiset"
begin

section \<open>Values, rows and the database\<close>

text \<open>
  The controllers receive two kinds of identifiers. Values taken from the validated
  request body (\<open>vine.number()\<close>), from the authenticated user and from table rows are
  JavaScript numbers. Values taken from \<open>params\<close> are whatever the router hands over for a
  path segment. Both are kept apart here, because JavaScript's \<open>===\<close> and \<open>!==\<close> compare
  the type as well as the value, while a query compares a bound value with an integer
  column only after the database has read it as an integer.
\<close>

datatype jsval = JNum nat | JStr string

fun strict_eq :: "jsval \<Rightarrow> jsval \<Rightarrow> bool" where
  "strict_eq (JNum a) (JNum b) = (a = b)"
| "strict_eq (JStr a) (JStr b) = (a = b)"
| "strict_eq _ _ = False"

text \<open>
  What a handler can throw: a JavaScript \<open>Error\<close> with its message, or an error of the
  database or of the model layer. None of the latter carries one of the messages the
  controllers compare against. \<open>InvalidInteger\<close> is the database refusing a bound value
  for an integer column, for its syntax or for its size.
\<close>

datatype exn =
    Error string
  | UniqueViolation
  | ForeignKeyViolation
  | InvalidInteger
  | InvalidDateColumnValue
  | RowNotFound
  | NegativeOffset

text \<open>
  How the database reads a value bound against an integer column. The column holds
  integers from \<open>-2147483648\<close> to \<open>2147483647\<close>. A number is sent as its decimal text. A
  text is read in decimal notation: white space around it is skipped, one sign may come
  first, at least one digit must follow and nothing else may. A text of another form, and
  an integer outside the range, is refused with an error. (Decimal notation is what every
  version of the database reads; the other notations that later versions also read are
  not modelled and count as refused.) The ids the tables hold are not negative, so of a
  negative integer only the fact is kept.
\<close>

definition int4_max :: nat where
  "int4_max = 2147483647"

datatype sql_value = Refused | Negative | Value nat

fun digits_value :: "nat \<Rightarrow> string \<Rightarrow> nat option" where
  "digits_value acc [] = Some acc"
| "digits_value acc (c # cs) =
     (let d = (of_char c :: nat)
      in if 48 \<le> d \<and> d \<le> 57 then digits_value (10 * acc + (d - 48)) cs else None)"

definition digits :: "string \<Rightarrow> nat option" where
  "digits s = (if s = [] then None else digits_value 0 s)"

definition is_blank :: "char \<Rightarrow> bool" where
  "is_blank c = ((of_char c :: nat) \<in> {9, 10, 11, 12, 13, 32})"

definition in_range :: "nat \<Rightarrow> sql_value" where
  "in_range n = (if n \<le> int4_max then Value n else Refused)"

definition below_zero :: "nat \<Rightarrow> sql_value" where
  "below_zero n =
     (if n = 0 then Value 0 else if n \<le> Suc int4_max then Negative else Refused)"

definition read_text :: "string \<Rightarrow> sql_value" where
  "read_text s =
     (case rev (dropWhile is_blank (rev (dropWhile is_blank s))) of
        [] \<Rightarrow> Refused
      | c # cs \<Rightarrow>
          if c = CHR ''-''
          then (case digits cs of None \<Rightarrow> Refused | Some n \<Rightarrow> below_zero n)
          else if c = CHR ''+''
          then (case digits cs of None \<Rightarrow> Refused | Some n \<Rightarrow> in_range n)
          else (case digits (c # cs) of None \<Rightarrow> Refused | Some n \<Rightarrow> in_range n))"

fun sql_read :: "jsval \<Rightarrow> sql_value" where
  "sql_read (JNum n) = in_range n"
| "sql_read (JStr s) = read_text s"

text \<open>The id a bound value names, when the database reads it as an id a row can carry.\<close>

definition sql_int :: "jsval \<Rightarrow> nat option" where
  "sql_int v = (case sql_read v of Value n \<Rightarrow> Some n | _ \<Rightarrow> None)"

record user =
  u_id :: nat
  u_email :: string
  u_fullName :: "string option"

record conversation =
  c_id :: nat
  c_name :: "string option"
  c_description :: "string option"
  c_createdBy :: nat
  c_createdAt :: nat
  c_updatedAt :: nat

record conversation_participant =
  p_id :: nat
  p_conversationId :: nat
  p_userId :: nat
  p_joinedAt :: nat

record message =
  m_id :: nat
  m_conversationId :: nat
  m_userId :: nat
  m_content :: string
  m_replyToId :: "nat option"
  m_editedAt :: "nat option"
  m_createdAt :: nat
  m_updatedAt :: nat

text \<open>
  The persistent store: the four tables in insertion order and the three sequences behind
  the \<open>increments('id')\<close> columns.
\<close>

record db =
  users :: "user list"
  conversations :: "conversation list"
  conversation_participants :: "conversation_participant list"
  messages :: "message list"
  conversation_seq :: nat
  participant_seq :: nat
  message_seq :: nat

text \<open>
  A time as the handlers produce it: \<open>DateTime.now()\<close> of luxon or \<open>new Date()\<close> of
  JavaScript.
\<close>

datatype js_time = LuxonDateTime nat | JsDate nat

record user_summary =
  us_id :: nat
  us_email :: string
  us_fullName :: "string option"

record reply_summary =
  rs_id :: nat
  rs_content :: string
  rs_userId :: nat
  rs_user :: "user_summary option"

record message_view =
  mv_id :: nat
  mv_conversationId :: jsval
  mv_userId :: nat
  mv_content :: string
  mv_replyToId :: "nat option"
  mv_editedAt :: "nat option"
  mv_createdAt :: nat
  mv_updatedAt :: nat
  mv_user :: "user_summary option"
  mv_replyTo :: "reply_summary option"

record participant_view =
  pv_row :: conversation_participant
  pv_user :: "user_summary option"

record conversation_view =
  cv_row :: conversation
  cv_creator :: "user_summary option"
  cv_participants :: "participant_view list"

record message_page =
  pg_total :: nat
  pg_perPage :: nat
  pg_currentPage :: nat
  pg_data :: "message_view list"

datatype body =
    Text string
  | ConversationBody conversation_view
  | MessageBody message_view
  | PageBody message_page

datatype response =
    Ok body
  | Created body
  | NoContent
  | BadRequest string
  | Forbidden string
  | NotFound string
  | Unprocessable
  | Thrown exn

section \<open>Queries\<close>

text \<open>The rows of a table that carry a given id: the lookups the database itself makes.\<close>

definition find_user :: "db \<Rightarrow> nat \<Rightarrow> user option" where
  "find_user d i = find (\<lambda>u. u_id u = i) (users d)"

definition find_conversation :: "db \<Rightarrow> nat \<Rightarrow> conversation option" where
  "find_conversation d i = find (\<lambda>c. c_id c = i) (conversations d)"

definition find_message :: "db \<Rightarrow> nat \<Rightarrow> message option" where
  "find_message d i = find (\<lambda>m. m_id m = i) (messages d)"

definition first_participant :: "db \<Rightarrow> nat \<Rightarrow> nat \<Rightarrow> conversation_participant option" where
  "first_participant d c u =
     find (\<lambda>p. p_conversationId p = c \<and> p_userId p = u) (conversation_participants d)"

text \<open>
  The queries the handlers make, with the values they bind: \<open>Model.find(value)\<close>, the
  query for the participant row of a pair, \<open>User.query().whereIn('id', ids)\<close> and the
  messages of a conversation. A refused value makes the query throw; a negative integer
  matches no row.
\<close>

definition by_id :: "jsval \<Rightarrow> (nat \<Rightarrow> 'a option) \<Rightarrow> exn + 'a option" where
  "by_id v lookup =
     (case sql_read v of
        Refused \<Rightarrow> Inl InvalidInteger
      | Negative \<Rightarrow> Inr None
      | Value i \<Rightarrow> Inr (lookup i))"

definition User_find :: "db \<Rightarrow> jsval \<Rightarrow> exn + user option" where
  "User_find d v = by_id v (find_user d)"

definition Conversation_find :: "db \<Rightarrow> jsval \<Rightarrow> exn + conversation option" where
  "Conversation_find d v = by_id v (find_conversation d)"

definition Message_find :: "db \<Rightarrow> jsval \<Rightarrow> exn + message option" where
  "Message_find d v = by_id v (find_message d)"

definition Participant_first ::
  "db \<Rightarrow> jsval \<Rightarrow> jsval \<Rightarrow> exn + conversation_participant option" where
  "Participant_first d conversationId userId =
     (case sql_read conversationId of
        Refused \<Rightarrow> Inl InvalidInteger
      | Negative \<Rightarrow>
          (case sql_read userId of Refused \<Rightarrow> Inl InvalidInteger | _ \<Rightarrow> Inr None)
      | Value c \<Rightarrow>
          (case sql_read userId of
             Refused \<Rightarrow> Inl InvalidInteger
           | Negative \<Rightarrow> Inr None
           | Value u \<Rightarrow> Inr (first_participant d c u)))"

definition User_whereIn :: "db \<Rightarrow> nat list \<Rightarrow> exn + user list" where
  "User_whereIn d ids =
     (if list_all (\<lambda>i. i \<le> int4_max) ids
      then Inr (filter (\<lambda>u. u_id u \<in> set ids) (users d))
      else Inl InvalidInteger)"

definition Message_of_conversation :: "db \<Rightarrow> jsval \<Rightarrow> exn + message list" where
  "Message_of_conversation d conversationId =
     (case sql_read conversationId of
        Refused \<Rightarrow> Inl InvalidInteger
      | Negative \<Rightarrow> Inr []
      | Value c \<Rightarrow> Inr (filter (\<lambda>m. m_conversationId m = c) (messages d)))"

definition summary :: "user \<Rightarrow> user_summary" where
  "summary u = \<lparr>us_id = u_id u, us_email = u_email u, us_fullName = u_fullName u\<rparr>"

definition load_user :: "db \<Rightarrow> nat \<Rightarrow> user_summary option" where
  "load_user d i = map_option summary (find_user d i)"

definition load_conversation :: "db \<Rightarrow> conversation \<Rightarrow> conversation_view" where
  "load_conversation d c =
     \<lparr>cv_row = c,
      cv_creator = load_user d (c_createdBy c),
      cv_participants =
        map (\<lambda>p. \<lparr>pv_row = p, pv_user = load_user d (p_userId p)\<rparr>)
          (filter (\<lambda>p. p_conversationId p = c_id c) (conversation_participants d))\<rparr>"

definition load_replyTo :: "db \<Rightarrow> nat option \<Rightarrow> reply_summary option" where
  "load_replyTo d r =
     (case r of
        None \<Rightarrow> None
      | Some i \<Rightarrow>
          map_option
            (\<lambda>t. \<lparr>rs_id = m_id t, rs_content = m_content t, rs_userId = m_userId t,
                  rs_user = load_user d (m_userId t)\<rparr>)
            (find_message d i))"

text \<open>
  A message as a response serialises it: the row's columns, the preloaded author and,
  when \<open>replyToId\<close> is set, the preloaded target with its own author (one level only).
  The conversation id is passed separately: a row read from the table carries a number,
  an instance built by \<open>Message.create\<close> carries the value it was given.
\<close>

definition load_message :: "db \<Rightarrow> jsval \<Rightarrow> message \<Rightarrow> message_view" where
  "load_message d conversationId m =
     \<lparr>mv_id = m_id m,
      mv_conversationId = conversationId,
      mv_userId = m_userId m,
      mv_content = m_content m,
      mv_replyToId = m_replyToId m,
      mv_editedAt = m_editedAt m,
      mv_createdAt = m_createdAt m,
      mv_updatedAt = m_updatedAt m,
      mv_user = load_user d (m_userId m),
      mv_replyTo = load_replyTo d (m_replyToId m)\<rparr>"

section \<open>Writes\<close>

definition create_conversation ::
  "db \<Rightarrow> string option \<Rightarrow> string option \<Rightarrow> nat \<Rightarrow> nat \<Rightarrow> conversation \<times> db" where
  "create_conversation d name description createdBy now =
     (let c = \<lparr>c_id = conversation_seq d, c_name = name, c_description = description,
               c_createdBy = createdBy, c_createdAt = now, c_updatedAt = now\<rparr>
      in (c, d\<lparr>conversations := conversations d @ [c],
               conversation_seq := Suc (conversation_seq d)\<rparr>))"

text \<open>
  An insert into \<open>conversation_participants\<close> under the constraints of its migration:
  both foreign keys must resolve and the pair \<open>(conversation_id, user_id)\<close> is unique.
\<close>

definition insert_participant :: "db \<Rightarrow> nat \<Rightarrow> nat \<Rightarrow> nat \<Rightarrow> exn + db" where
  "insert_participant d conversationId userId joinedAt =
     (if find_conversation d conversationId = None \<or> find_user d userId = None
      then Inl ForeignKeyViolation
      else if first_participant d conversationId userId \<noteq> None
      then Inl UniqueViolation
      else Inr (d\<lparr>conversation_participants :=
                     conversation_participants d @
                       [\<lparr>p_id = participant_seq d, p_conversationId = conversationId,
                         p_userId = userId, p_joinedAt = joinedAt\<rparr>],
                   participant_seq := Suc (participant_seq d)\<rparr>))"

text \<open>
  \<open>createMany\<close> issues one insert per element inside one transaction: the first failing
  insert aborts it and nothing of it is kept (the caller goes on with the store it had).
\<close>

fun createMany :: "db \<Rightarrow> (nat \<times> nat \<times> nat) list \<Rightarrow> exn + db" where
  "createMany d [] = Inr d"
| "createMany d ((conversationId, userId, joinedAt) # rows) =
     (case insert_participant d conversationId userId joinedAt of
        Inl e \<Rightarrow> Inl e
      | Inr d' \<Rightarrow> createMany d' rows)"

definition delete_participant :: "db \<Rightarrow> conversation_participant \<Rightarrow> db" where
  "delete_participant d p =
     d\<lparr>conversation_participants :=
         filter (\<lambda>q. p_id q \<noteq> p_id p) (conversation_participants d)\<rparr>"

text \<open>
  Modelled from the spec: the migration that creates the \<open>messages\<close> table
  (\<open>database/migrations/1766586221540_create_messages_table.ts\<close>) is not among the
  sources. The spec and the project's notes give its delete rules: \<open>reply_to_id\<close> is a
  nullable self-reference with \<open>onDelete('SET NULL')\<close>, so deleting rows clears the
  references to them and keeps the referring rows; messages are deleted with their
  conversation.
\<close>

definition delete_messages :: "(message \<Rightarrow> bool) \<Rightarrow> message list \<Rightarrow> message list" where
  "delete_messages gone ms =
     map (\<lambda>m. case m_replyToId m of
                None \<Rightarrow> m
              | Some r \<Rightarrow> if r \<in> set (map m_id (filter gone ms))
                          then m\<lparr>m_replyToId := None\<rparr> else m)
       (filter (\<lambda>m. \<not> gone m) ms)"

definition delete_message :: "db \<Rightarrow> message \<Rightarrow> db" where
  "delete_message d m = d\<lparr>messages := delete_messages (\<lambda>x. m_id x = m_id m) (messages d)\<rparr>"

definition delete_conversation :: "db \<Rightarrow> conversation \<Rightarrow> db" where
  "delete_conversation d c =
     d\<lparr>conversations := filter (\<lambda>x. c_id x \<noteq> c_id c) (conversations d),
       conversation_participants :=
         filter (\<lambda>p. p_conversationId p \<noteq> c_id c) (conversation_participants d),
       messages := delete_messages (\<lambda>m. m_conversationId m = c_id c) (messages d)\<rparr>"

definition save_conversation :: "db \<Rightarrow> conversation \<Rightarrow> db" where
  "save_conversation d c =
     d\<lparr>conversations := map (\<lambda>x. if c_id x = c_id c then c else x) (conversations d)\<rparr>"

definition save_message :: "db \<Rightarrow> message \<Rightarrow> db" where
  "save_message d m =
     d\<lparr>messages := map (\<lambda>x. if m_id x = m_id m then m else x) (messages d)\<rparr>"

text \<open>
  \<open>models/message.ts\<close> declares \<open>editedAt\<close> with \<open>@column.dateTime()\<close>. When the model is
  saved, such a column takes a luxon \<open>DateTime\<close> and refuses every other object with an
  error, a JavaScript \<open>Date\<close> among them; nothing is written then.
\<close>

definition prepare_dateTime :: "js_time \<Rightarrow> exn + nat" where
  "prepare_dateTime t =
     (case t of LuxonDateTime at \<Rightarrow> Inr at | JsDate at \<Rightarrow> Inl InvalidDateColumnValue)"

definition save_edited :: "db \<Rightarrow> message \<Rightarrow> js_time \<Rightarrow> nat \<Rightarrow> exn + message \<times> db" where
  "save_edited d m editedAt now =
     (case prepare_dateTime editedAt of
        Inl e \<Rightarrow> Inl e
      | Inr at \<Rightarrow>
          let saved = m\<lparr>m_editedAt := Some at, m_updatedAt := now\<rparr>
          in Inr (saved, save_message d saved))"

text \<open>
  An insert into \<open>conversation_participants\<close> of values taken from the request.
\<close>

definition Participant_create :: "db \<Rightarrow> jsval \<Rightarrow> jsval \<Rightarrow> nat \<Rightarrow> exn + db" where
  "Participant_create d conversationId userId joinedAt =
     (case sql_read conversationId of
        Refused \<Rightarrow> Inl InvalidInteger
      | Negative \<Rightarrow>
          (case sql_read userId of
             Refused \<Rightarrow> Inl InvalidInteger
           | _ \<Rightarrow> Inl ForeignKeyViolation)
      | Value c \<Rightarrow>
          (case sql_read userId of
             Refused \<Rightarrow> Inl InvalidInteger
           | Negative \<Rightarrow> Inl ForeignKeyViolation
           | Value u \<Rightarrow> insert_participant d c u joinedAt))"

definition create_message ::
  "db \<Rightarrow> nat \<Rightarrow> nat \<Rightarrow> string \<Rightarrow> nat option \<Rightarrow> nat \<Rightarrow> message \<times> db" where
  "create_message d conversationId userId content replyToId now =
     (let m = \<lparr>m_id = message_seq d, m_conversationId = conversationId, m_userId = userId,
               m_content = content, m_replyToId = replyToId, m_editedAt = None,
               m_createdAt = now, m_updatedAt = now\<rparr>
      in (m, d\<lparr>messages := messages d @ [m], message_seq := Suc (message_seq d)\<rparr>))"

section \<open>ConversationAuthorizationService\<close>

definition isParticipant :: "db \<Rightarrow> jsval \<Rightarrow> nat \<Rightarrow> exn + bool" where
  "isParticipant d conversationId userId =
     (case Participant_first d conversationId (JNum userId) of
        Inl e \<Rightarrow> Inl e
      | Inr participant \<Rightarrow> Inr (participant \<noteq> None))"

definition isCreator :: "db \<Rightarrow> jsval \<Rightarrow> nat \<Rightarrow> exn + bool" where
  "isCreator d conversationId userId =
     (case Conversation_find d conversationId of
        Inl e \<Rightarrow> Inl e
      | Inr None \<Rightarrow> Inr False
      | Inr (Some conversation) \<Rightarrow> Inr (c_createdBy conversation = userId))"

definition ensureParticipant :: "db \<Rightarrow> jsval \<Rightarrow> nat \<Rightarrow> exn + unit" where
  "ensureParticipant d conversationId userId =
     (case isParticipant d conversationId userId of
        Inl e \<Rightarrow> Inl e
      | Inr b \<Rightarrow>
          if \<not> b then Inl (Error ''User is not a participant in this conversation'')
          else Inr ())"

definition ensureCreator :: "db \<Rightarrow> jsval \<Rightarrow> nat \<Rightarrow> exn + unit" where
  "ensureCreator d conversationId userId =
     (case isCreator d conversationId userId of
        Inl e \<Rightarrow> Inl e
      | Inr b \<Rightarrow>
          if \<not> b then Inl (Error ''User is not the creator of this conversation'')
          else Inr ())"

text \<open>
  The \<open>catch\<close> blocks of the controllers: one message is turned into a 403 response, every
  other error is thrown again.
\<close>

definition catch_participant :: "exn \<Rightarrow> response" where
  "catch_participant e =
     (if e = Error ''User is not a participant in this conversation''
      then Forbidden ''You are not a participant in this conversation''
      else Thrown e)"

definition catch_creator :: "string \<Rightarrow> exn \<Rightarrow> response" where
  "catch_creator reply e =
     (if e = Error ''User is not the creator of this conversation''
      then Forbidden reply
      else Thrown e)"

section \<open>Validators\<close>

text \<open>
  \<open>vine.string().trim().minLength(1)\<close>: the content is trimmed and must not be empty;
  \<open>vine.array(vine.number()).minLength(1)\<close>: the list of participant ids must not be
  empty. A failed validation is answered with status 422. A character stands for the code
  unit of its number, so a text here is one of code units below 256; of these
  JavaScript's \<open>trim\<close> strips the six of ASCII and the no-break space.
\<close>

definition is_space :: "char \<Rightarrow> bool" where
  "is_space c = ((of_char c :: nat) \<in> {9, 10, 11, 12, 13, 32, 160})"

definition trim :: "string \<Rightarrow> string" where
  "trim s = rev (dropWhile is_space (rev (dropWhile is_space s)))"

definition validate_content :: "string \<Rightarrow> string option" where
  "validate_content s = (if trim s = [] then None else Some (trim s))"

record create_conversation_payload =
  cp_name :: "string option"
  cp_description :: "string option"
  cp_participantIds :: "nat list"

record update_conversation_payload =
  up_name :: "string option"
  up_description :: "string option"

section \<open>ConversationController\<close>

text \<open>
  Every handler takes the store, the request's inputs, the id of the authenticated user
  and, where the handler reads the clock, the current time; it returns the response and
  the store it leaves behind.
\<close>

definition store_conversation ::
  "db \<Rightarrow> nat \<Rightarrow> create_conversation_payload \<Rightarrow> nat \<Rightarrow> response \<times> db" where
  "store_conversation d user_id payload now =
     (if cp_participantIds payload = [] then (Unprocessable, d)
      else
        let (conversation, d1) =
              create_conversation d (cp_name payload) (cp_description payload) user_id now
        in case insert_participant d1 (c_id conversation) user_id now of
             Inl e \<Rightarrow> (Thrown e, d1)
           | Inr d2 \<Rightarrow>
               let participantIds = filter (\<lambda>i. i \<noteq> user_id) (cp_participantIds payload)
               in if length participantIds > 0
                  then
                    (case User_whereIn d2 participantIds of
                       Inl e \<Rightarrow> (Thrown e, d2)
                     | Inr found \<Rightarrow>
                         if length found \<noteq> length participantIds
                         then (BadRequest ''One or more participant IDs are invalid'', d2)
                         else
                           (case createMany d2
                                   (map (\<lambda>userId. (c_id conversation, userId, now))
                                      participantIds) of
                              Inl e \<Rightarrow> (Thrown e, d2)
                            | Inr d3 \<Rightarrow>
                                (Created (ConversationBody (load_conversation d3 conversation)),
                                 d3)))
                  else (Created (ConversationBody (load_conversation d2 conversation)), d2))"

text \<open>
  \<open>merge\<close> assigns the fields the payload carries; \<open>save\<close> writes the row, and with it a
  new \<open>updatedAt\<close>, only when an attribute has changed.
\<close>

definition merge :: "conversation \<Rightarrow> update_conversation_payload \<Rightarrow> conversation" where
  "merge c payload =
     c\<lparr>c_name := (case up_name payload of None \<Rightarrow> c_name c | Some n \<Rightarrow> Some n),
       c_description :=
         (case up_description payload of None \<Rightarrow> c_description c | Some n \<Rightarrow> Some n)\<rparr>"

definition findOrFail_conversation :: "db \<Rightarrow> jsval \<Rightarrow> exn + conversation" where
  "findOrFail_conversation d conversationId =
     (case Conversation_find d conversationId of
        Inl e \<Rightarrow> Inl e
      | Inr None \<Rightarrow> Inl RowNotFound
      | Inr (Some conversation) \<Rightarrow> Inr conversation)"

definition update_conversation ::
  "db \<Rightarrow> jsval \<Rightarrow> nat \<Rightarrow> update_conversation_payload \<Rightarrow> nat \<Rightarrow> response \<times> db" where
  "update_conversation d conversationId user_id payload now =
     (case ensureCreator d conversationId user_id of
        Inl e \<Rightarrow> (catch_creator ''Only the creator can update this conversation'' e, d)
      | Inr _ \<Rightarrow>
          (case findOrFail_conversation d conversationId of
             Inl e \<Rightarrow> (catch_creator ''Only the creator can update this conversation'' e, d)
           | Inr conversation \<Rightarrow>
               let merged = merge conversation payload;
                   saved = (if merged = conversation then conversation
                            else merged\<lparr>c_updatedAt := now\<rparr>);
                   d' = save_conversation d saved
               in (Ok (ConversationBody (load_conversation d' saved)), d')))"

definition destroy_conversation :: "db \<Rightarrow> jsval \<Rightarrow> nat \<Rightarrow> response \<times> db" where
  "destroy_conversation d conversationId user_id =
     (case ensureCreator d conversationId user_id of
        Inl e \<Rightarrow> (catch_creator ''Only the creator can delete this conversation'' e, d)
      | Inr _ \<Rightarrow>
          (case findOrFail_conversation d conversationId of
             Inl e \<Rightarrow> (catch_creator ''Only the creator can delete this conversation'' e, d)
           | Inr conversation \<Rightarrow> (NoContent, delete_conversation d conversation)))"

text \<open>
  \<open>addParticipant\<close> awaits three reads and then one insert. The reads are
  \<open>addParticipant_check\<close>: it yields the response when the handler answers before the
  insert, and nothing when the handler goes on. The insert is \<open>addParticipant_insert\<close>.
  Another request can run between the two, since the handler holds no transaction.
\<close>

definition addParticipant_check :: "db \<Rightarrow> jsval \<Rightarrow> nat \<Rightarrow> nat \<Rightarrow> response option" where
  "addParticipant_check d conversationId user_id userId =
     (case ensureParticipant d conversationId user_id of
        Inl e \<Rightarrow> Some (catch_participant e)
      | Inr _ \<Rightarrow>
          (case Participant_first d conversationId (JNum userId) of
             Inl e \<Rightarrow> Some (catch_participant e)
           | Inr (Some existingParticipant) \<Rightarrow>
               Some (BadRequest ''User is already a participant'')
           | Inr None \<Rightarrow>
               (case User_find d (JNum userId) of
                  Inl e \<Rightarrow> Some (catch_participant e)
                | Inr None \<Rightarrow> Some (NotFound ''User not found'')
                | Inr (Some targetUser) \<Rightarrow> None)))"

definition addParticipant_insert :: "db \<Rightarrow> jsval \<Rightarrow> nat \<Rightarrow> nat \<Rightarrow> response \<times> db" where
  "addParticipant_insert d conversationId userId now =
     (case Participant_create d conversationId (JNum userId) now of
        Inl e \<Rightarrow> (catch_participant e, d)
      | Inr d' \<Rightarrow> (Ok (Text ''Participant added successfully''), d'))"

definition addParticipant :: "db \<Rightarrow> jsval \<Rightarrow> nat \<Rightarrow> nat \<Rightarrow> nat \<Rightarrow> response \<times> db" where
  "addParticipant d conversationId user_id userId now =
     (case addParticipant_check d conversationId user_id userId of
        Some r \<Rightarrow> (r, d)
      | None \<Rightarrow> addParticipant_insert d conversationId userId now)"

definition removeParticipant :: "db \<Rightarrow> jsval \<Rightarrow> jsval \<Rightarrow> nat \<Rightarrow> response \<times> db" where
  "removeParticipant d conversationId userId user_id =
     (case ensureParticipant d conversationId user_id of
        Inl e \<Rightarrow> (catch_participant e, d)
      | Inr _ \<Rightarrow>
          (case Participant_first d conversationId userId of
             Inl e \<Rightarrow> (catch_participant e, d)
           | Inr None \<Rightarrow> (NotFound ''Participant not found'', d)
           | Inr (Some participant) \<Rightarrow>
               (Ok (Text ''Participant removed successfully''),
                delete_participant d participant)))"

section \<open>MessageController\<close>

text \<open>
  \<open>orderBy('created_at', 'desc')\<close>: newest first. The database leaves the order of rows
  with equal \<open>created_at\<close> open; the model fixes one.
\<close>

definition newest_first :: "message list \<Rightarrow> message list" where
  "newest_first ms = rev (sort_key m_createdAt ms)"

text \<open>
  \<open>paginate(page, limit)\<close> of the query builder: it counts the rows and, when there are
  any, reads \<open>limit\<close> rows at offset \<open>limit * (page - 1)\<close>; the builder refuses a negative
  offset.
\<close>

definition paginate :: "message list \<Rightarrow> nat \<Rightarrow> nat \<Rightarrow> exn + message list" where
  "paginate rows page limit =
     (if length rows = 0 then Inr []
      else if page = 0 \<and> limit > 0 then Inl NegativeOffset
      else Inr (take limit (drop (limit * (page - 1)) rows)))"

definition input :: "nat option \<Rightarrow> nat \<Rightarrow> nat" where
  "input given dflt = (case given of None \<Rightarrow> dflt | Some v \<Rightarrow> v)"

definition index_messages ::
  "db \<Rightarrow> jsval \<Rightarrow> nat \<Rightarrow> nat option \<Rightarrow> nat option \<Rightarrow> response" where
  "index_messages d conversationId user_id page_input limit_input =
     (case ensureParticipant d conversationId user_id of
        Inl e \<Rightarrow> catch_participant e
      | Inr _ \<Rightarrow>
          let page = input page_input 1;
              limit = input limit_input 50
          in (case Message_of_conversation d conversationId of
                Inl e \<Rightarrow> catch_participant e
              | Inr found \<Rightarrow>
                  let rows = newest_first found
                  in (case paginate rows page limit of
                        Inl e \<Rightarrow> catch_participant e
                      | Inr data \<Rightarrow>
                          Ok (PageBody
                                \<lparr>pg_total = length rows, pg_perPage = limit,
                                 pg_currentPage = page,
                                 pg_data =
                                   map (\<lambda>m. load_message d (JNum (m_conversationId m)) m)
                                     data\<rparr>))))"

text \<open>
  \<open>payload.replyToId\<close> is tested for truthiness, so \<open>0\<close> counts as absent, both in the
  check of the reply target and in \<open>payload.replyToId || null\<close>.
\<close>

definition truthy :: "nat option \<Rightarrow> bool" where
  "truthy v = (case v of None \<Rightarrow> False | Some n \<Rightarrow> n \<noteq> 0)"

definition or_null :: "nat option \<Rightarrow> nat option" where
  "or_null v = (if truthy v then v else None)"

text \<open>
  The check of the reply target in \<open>store\<close>: the response when the handler answers there,
  nothing when it goes on.
\<close>

definition check_replyTo :: "db \<Rightarrow> jsval \<Rightarrow> nat option \<Rightarrow> response option" where
  "check_replyTo d conversationId replyToId =
     (case replyToId of
        None \<Rightarrow> None
      | Some r \<Rightarrow>
          if truthy (Some r)
          then
            (case Message_find d (JNum r) of
               Inl e \<Rightarrow> Some (catch_participant e)
             | Inr None \<Rightarrow> Some (NotFound ''Message to reply to not found'')
             | Inr (Some replyToMessage) \<Rightarrow>
                 if \<not> strict_eq (JNum (m_conversationId replyToMessage)) conversationId
                 then Some (BadRequest
                              ''Cannot reply to a message from a different conversation'')
                 else None)
          else None)"

definition store_message ::
  "db \<Rightarrow> jsval \<Rightarrow> nat \<Rightarrow> string \<Rightarrow> nat option \<Rightarrow> nat \<Rightarrow> response \<times> db" where
  "store_message d conversationId user_id content replyToId now =
     (case validate_content content of
        None \<Rightarrow> (Unprocessable, d)
      | Some trimmed \<Rightarrow>
          (case ensureParticipant d conversationId user_id of
             Inl e \<Rightarrow> (catch_participant e, d)
           | Inr _ \<Rightarrow>
               (case check_replyTo d conversationId replyToId of
                  Some r \<Rightarrow> (r, d)
                | None \<Rightarrow>
                    (case sql_read conversationId of
                       Refused \<Rightarrow> (catch_participant InvalidInteger, d)
                     | Negative \<Rightarrow> (catch_participant ForeignKeyViolation, d)
                     | Value c \<Rightarrow>
                         let (m, d') =
                               create_message d c user_id trimmed (or_null replyToId) now
                         in (Created (MessageBody (load_message d' conversationId m)), d')))))"

text \<open>
  \<open>update\<close> validates the body, loads the message and checks ownership; it calls no
  function of the authorization service. It then assigns the content and \<open>new Date()\<close>
  as \<open>editedAt\<close> and saves.
\<close>

definition update_message ::
  "db \<Rightarrow> jsval \<Rightarrow> nat \<Rightarrow> string \<Rightarrow> nat \<Rightarrow> response \<times> db" where
  "update_message d messageId user_id content now =
     (case validate_content content of
        None \<Rightarrow> (Unprocessable, d)
      | Some trimmed \<Rightarrow>
          (case Message_find d messageId of
             Inl e \<Rightarrow> (Thrown e, d)
           | Inr None \<Rightarrow> (NotFound ''Message not found'', d)
           | Inr (Some m) \<Rightarrow>
               if m_userId m \<noteq> user_id
               then (Forbidden ''You can only edit your own messages'', d)
               else
                 (case save_edited d (m\<lparr>m_content := trimmed\<rparr>) (JsDate now) now of
                    Inl e \<Rightarrow> (Thrown e, d)
                  | Inr (saved, d') \<Rightarrow>
                      (Ok (MessageBody
                             (load_message d' (JNum (m_conversationId saved)) saved)), d'))))"

definition destroy_message :: "db \<Rightarrow> jsval \<Rightarrow> nat \<Rightarrow> response \<times> db" where
  "destroy_message d messageId user_id =
     (case Message_find d messageId of
        Inl e \<Rightarrow> (Thrown e, d)
      | Inr None \<Rightarrow> (NotFound ''Message not found'', d)
      | Inr (Some m) \<Rightarrow>
          if m_userId m \<noteq> user_id
          then (Forbidden ''You can only delete your own messages'', d)
          else (NoContent, delete_message d m))"

section \<open>Consistency of the store\<close>

text \<open>
  What the schema guarantees of every store the application can reach: primary keys are
  unique, the pair \<open>(conversation_id, user_id)\<close> is unique among the participants, and
  the sequence of conversation ids is ahead of every id in use.
\<close>

definition consistent :: "db \<Rightarrow> bool" where
  "consistent d =
     (distinct (map u_id (users d)) \<and>
      distinct (map p_id (conversation_participants d)) \<and>
      distinct (map (\<lambda>p. (p_conversationId p, p_userId p)) (conversation_participants d)) \<and>
      list_all (\<lambda>c. c_id c < conversation_seq d) (conversations d) \<and>
      list_all (\<lambda>p. p_conversationId p < conversation_seq d) (conversation_participants d))"

section \<open>An example store\<close>

text \<open>
  Three users; conversation 1 (created by user 1, with users 1 and 2) and conversation 2
  (created by user 3, with users 2 and 3); message 1 "hello" by user 1 and message 2 by
  user 2 replying to it in conversation 1; message 3 by user 3 in conversation 2; message
  4 in conversation 1 by user 3, who has left that conversation since.
\<close>

definition demo :: db where
  "demo =
     \<lparr>users =
        [\<lparr>u_id = 1, u_email = ''a@example.com'', u_fullName = Some ''A''\<rparr>,
         \<lparr>u_id = 2, u_email = ''b@example.com'', u_fullName = Some ''B''\<rparr>,
         \<lparr>u_id = 3, u_email = ''c@example.com'', u_fullName = None\<rparr>],
      conversations =
        [\<lparr>c_id = 1, c_name = Some ''general'', c_description = None, c_createdBy = 1,
          c_createdAt = 10, c_updatedAt = 10\<rparr>,
         \<lparr>c_id = 2, c_name = None, c_description = None, c_createdBy = 3,
          c_createdAt = 11, c_updatedAt = 11\<rparr>],
      conversation_participants =
        [\<lparr>p_id = 1, p_conversationId = 1, p_userId = 1, p_joinedAt = 10\<rparr>,
         \<lparr>p_id = 2, p_conversationId = 1, p_userId = 2, p_joinedAt = 10\<rparr>,
         \<lparr>p_id = 3, p_conversationId = 2, p_userId = 3, p_joinedAt = 11\<rparr>,
         \<lparr>p_id = 4, p_conversationId = 2, p_userId = 2, p_joinedAt = 11\<rparr>],
      messages =
        [\<lparr>m_id = 1, m_conversationId = 1, m_userId = 1, m_content = ''hello'',
          m_replyToId = None, m_editedAt = None, m_createdAt = 20, m_updatedAt = 20\<rparr>,
         \<lparr>m_id = 2, m_conversationId = 1, m_userId = 2, m_content = ''hi'',
          m_replyToId = Some 1, m_editedAt = None, m_createdAt = 21, m_updatedAt = 21\<rparr>,
         \<lparr>m_id = 3, m_conversationId = 2, m_userId = 3, m_content = ''there'',
          m_replyToId = None, m_editedAt = None, m_createdAt = 22, m_updatedAt = 22\<rparr>,
         \<lparr>m_id = 4, m_conversationId = 1, m_userId = 3, m_content = ''bye'',
          m_replyToId = None, m_editedAt = None, m_createdAt = 23, m_updatedAt = 23\<rparr>],
      conversation_seq = 3,
      participant_seq = 6,
      message_seq = 5\<rparr>"

text \<open>
  The example store with 120 messages in conversation 1, created one after the other.
\<close>

definition busy :: db where
  "busy =
     demo\<lparr>messages :=
            map (\<lambda>i. \<lparr>m_id = Suc i, m_conversationId = 1, m_userId = 1 + i mod 2,
                      m_content = ''ping'', m_replyToId = None, m_editedAt = None,
                      m_createdAt = 100 + i, m_updatedAt = 100 + i\<rparr>)
              [0..<120],
          message_seq := 121\<rparr>"

section \<open>Auxiliary facts\<close>

lemmas read_eval = sql_int_def read_text_def digits_def in_range_def below_zero_def
  int4_max_def is_blank_def by_id_def User_find_def Conversation_find_def Message_find_def
  Participant_first_def Participant_create_def User_whereIn_def Message_of_conversation_def

lemmas demo_eval = demo_def find_user_def find_conversation_def find_message_def
  first_participant_def isParticipant_def ensureParticipant_def validate_content_def
  trim_def is_space_def truthy_def or_null_def check_replyTo_def catch_participant_def Let_def

lemma sql_int_Value: "sql_int v = Some c \<Longrightarrow> sql_read v = Value c"
  by (simp add: sql_int_def split: sql_value.splits)

lemma sql_read_JNum: "sql_read (JNum n) = Value k \<Longrightarrow> k = n \<and> n \<le> int4_max"
  by (simp add: in_range_def split: if_splits)

lemma sql_read_JNum_le: "n \<le> int4_max \<Longrightarrow> sql_read (JNum n) = Value n"
  by (simp add: in_range_def)

lemma by_id_Value: "sql_read v = Value i \<Longrightarrow> by_id v lookup = Inr (lookup i)"
  by (simp add: by_id_def)

lemma by_id_JNum_Some:
  "by_id (JNum n) lookup = Inr (Some x) \<Longrightarrow> n \<le> int4_max \<and> lookup n = Some x"
  by (simp add: by_id_def in_range_def split: if_splits)

lemma by_id_JNum_None:
  "by_id (JNum n) lookup = Inr None \<Longrightarrow> n \<le> int4_max \<and> lookup n = None"
  by (simp add: by_id_def in_range_def split: if_splits)

lemma Participant_first_Value:
  "sql_read cv = Value c \<Longrightarrow> sql_read uv = Value u \<Longrightarrow>
   Participant_first d cv uv = Inr (first_participant d c u)"
  by (simp add: Participant_first_def)

lemma isParticipant_True:
  assumes "isParticipant d v u = Inr True"
  shows "\<exists>c. sql_read v = Value c \<and> first_participant d c u \<noteq> None \<and> u \<le> int4_max"
  using assms
  by (auto simp: isParticipant_def Participant_first_def in_range_def
      split: sql_value.splits if_splits)

lemma isParticipant_Value:
  "sql_read v = Value c \<Longrightarrow> u \<le> int4_max \<Longrightarrow>
   isParticipant d v u = Inr (first_participant d c u \<noteq> None)"
  by (simp add: isParticipant_def Participant_first_def in_range_def)

lemma find_append_Some: "find P xs = Some x \<Longrightarrow> find P (xs @ ys) = Some x"
  by (induction xs) (auto split: if_splits)

lemma find_append_None: "find P xs = None \<Longrightarrow> find P (xs @ ys) = find P ys"
  by (induction xs) (auto split: if_splits)

lemma find_Some_pred: "find P xs = Some x \<Longrightarrow> P x"
  by (induction xs) (auto split: if_splits)

lemma find_Some_set: "find P xs = Some x \<Longrightarrow> x \<in> set xs"
  by (induction xs) (auto split: if_splits)

lemma distinct_map_eq: "distinct (map f xs) \<Longrightarrow> x \<in> set xs \<Longrightarrow> y \<in> set xs \<Longrightarrow> f x = f y \<Longrightarrow> x = y"
  by (meson distinct_map inj_on_def)

lemma delete_messages_ids:
  "map m_id (delete_messages g ms) = map m_id (filter (\<lambda>m. \<not> g m) ms)"
  unfolding delete_messages_def map_map
  by (rule map_cong) (auto split: option.splits)

lemma delete_messages_cleared:
  assumes "r \<in> set ms" and "\<not> g r" and "m_replyToId r = Some k"
    and "x \<in> set ms" and "g x" and "m_id x = k"
  shows "r\<lparr>m_replyToId := None\<rparr> \<in> set (delete_messages g ms)"
proof -
  let ?clear = "\<lambda>m. case m_replyToId m of None \<Rightarrow> m
     | Some r \<Rightarrow> if r \<in> set (map m_id (filter g ms)) then m\<lparr>m_replyToId := None\<rparr> else m"
  have "k \<in> set (map m_id (filter g ms))"
    using assms(4,5,6) by force
  then have "?clear r = r\<lparr>m_replyToId := None\<rparr>"
    using assms(3) by simp
  moreover have "r \<in> set (filter (\<lambda>m. \<not> g m) ms)"
    using assms(1,2) by simp
  ultimately have "r\<lparr>m_replyToId := None\<rparr> \<in> ?clear ` set (filter (\<lambda>m. \<not> g m) ms)"
    by (rule_tac x = r in image_eqI) simp_all
  then show ?thesis
    by (simp only: delete_messages_def set_map)
qed

lemma newest_first_sorted:
  "sorted_wrt (\<lambda>a b. m_createdAt a \<ge> m_createdAt b) (newest_first ms)"
proof -
  have "sorted (map m_createdAt (sort_key m_createdAt ms))"
    by (rule sorted_sort_key)
  then have "sorted_wrt (\<lambda>a b. m_createdAt a \<le> m_createdAt b) (sort_key m_createdAt ms)"
    by (simp add: sorted_map)
  then show ?thesis
    by (simp add: newest_first_def sorted_wrt_rev)
qed

lemma length_newest_first: "length (newest_first ms) = length ms"
  by (simp add: newest_first_def)

lemma three_pages:
  assumes "length xs = 120"
  shows "take 50 xs @ take 50 (drop 50 xs) @ take 50 (drop 100 xs) = xs"
proof -
  have "drop 100 xs = drop 50 (drop 50 xs)" by simp
  moreover have "take 50 (drop 100 xs) = drop 100 xs" using assms by simp
  ultimately have "take 50 (drop 50 xs) @ take 50 (drop 100 xs) = drop 50 xs"
    by (metis append_take_drop_id)
  then show ?thesis by (metis append_take_drop_id)
qed

lemma find_user_iff: "find_user d i \<noteq> None \<longleftrightarrow> i \<in> set (map u_id (users d))"
  by (auto simp: find_user_def find_None_iff)

lemma found_ids:
  "map u_id (filter (\<lambda>u. u_id u \<in> set ids) us) = filter (\<lambda>i. i \<in> set ids) (map u_id us)"
  by (simp add: filter_map comp_def)

lemma found_length_less:
  assumes "distinct (map u_id us)" and "x \<in> set ids" and "x \<notin> set (map u_id us)"
  shows "length (filter (\<lambda>u. u_id u \<in> set ids) us) < length ids"
proof -
  let ?found = "filter (\<lambda>u. u_id u \<in> set ids) us"
  have "distinct (map u_id ?found)"
    unfolding found_ids using assms(1) by simp
  then have "length ?found = card (set (map u_id ?found))"
    by (metis distinct_card length_map)
  also have "set (map u_id ?found) \<subseteq> set ids - {x}"
    unfolding found_ids using assms(3) by auto
  then have "card (set (map u_id ?found)) \<le> card (set ids - {x})"
    by (simp add: card_mono)
  also have "\<dots> < card (set ids)"
    using assms(2) by (metis List.finite_set card_Diff1_less)
  also have "\<dots> \<le> length ids"
    by (rule card_length)
  finally show ?thesis .
qed

lemma found_length_eq:
  assumes "distinct (map u_id us)" and "distinct ids" and "set ids \<subseteq> set (map u_id us)"
  shows "length (filter (\<lambda>u. u_id u \<in> set ids) us) = length ids"
proof -
  let ?found = "filter (\<lambda>u. u_id u \<in> set ids) us"
  have "distinct (map u_id ?found)"
    unfolding found_ids using assms(1) by simp
  then have "length ?found = card (set (map u_id ?found))"
    by (metis distinct_card length_map)
  also have "set (map u_id ?found) = set ids"
    unfolding found_ids using assms(3) by auto
  also have "card (set ids) = length ids"
    using assms(2) by (rule distinct_card)
  finally show ?thesis .
qed

lemma createMany_distinct:
  assumes "find_conversation d c \<noteq> None"
    and "\<forall>i \<in> set ids. find_user d i \<noteq> None"
    and "distinct ids"
    and "\<forall>i \<in> set ids. first_participant d c i = None"
  shows "\<exists>d' rows. createMany d (map (\<lambda>i. (c, i, now)) ids) = Inr d' \<and>
           conversation_participants d' = conversation_participants d @ rows \<and>
           map p_userId rows = ids \<and> list_all (\<lambda>r. p_conversationId r = c) rows \<and>
           users d' = users d \<and> conversations d' = conversations d"
  using assms
proof (induction ids arbitrary: d)
  case Nil
  then show ?case by simp
next
  case (Cons i ids)
  let ?row = "\<lparr>p_id = participant_seq d, p_conversationId = c, p_userId = i, p_joinedAt = now\<rparr>"
  let ?d1 = "d\<lparr>conversation_participants := conversation_participants d @ [?row],
               participant_seq := Suc (participant_seq d)\<rparr>"
  have ins: "insert_participant d c i now = Inr ?d1"
    using Cons.prems by (simp add: insert_participant_def)
  have a: "find_conversation ?d1 c \<noteq> None"
    using Cons.prems(1) by (simp add: find_conversation_def)
  have b: "\<forall>j \<in> set ids. find_user ?d1 j \<noteq> None"
    using Cons.prems(2) by (simp add: find_user_def)
  have c: "distinct ids"
    using Cons.prems(3) by simp
  have e: "\<forall>j \<in> set ids. first_participant ?d1 c j = None"
    using Cons.prems(3,4) by (auto simp: first_participant_def find_append_None)
  from Cons.IH [OF a b c e] obtain d' rows where
    r: "createMany ?d1 (map (\<lambda>i. (c, i, now)) ids) = Inr d'"
      "conversation_participants d' = conversation_participants ?d1 @ rows"
      "map p_userId rows = ids" "list_all (\<lambda>r. p_conversationId r = c) rows"
      "users d' = users ?d1" "conversations d' = conversations ?d1"
    by blast
  have "createMany d (map (\<lambda>i. (c, i, now)) (i # ids)) = Inr d' \<and>
        conversation_participants d' = conversation_participants d @ (?row # rows) \<and>
        map p_userId (?row # rows) = i # ids \<and>
        list_all (\<lambda>r. p_conversationId r = c) (?row # rows) \<and>
        users d' = users d \<and> conversations d' = conversations d"
    using ins r by simp
  then show ?case
    by (intro exI [of _ d'] exI [of _ "?row # rows"])
qed

lemma fresh_conversation:
  assumes "consistent d"
  shows "find_conversation d (conversation_seq d) = None"
    and "filter (\<lambda>p. p_conversationId p = conversation_seq d) (conversation_participants d) = []"
    and "first_participant d (conversation_seq d) u = None"
proof -
  have c: "\<And>x. x \<in> set (conversations d) \<Longrightarrow> c_id x < conversation_seq d"
    and p: "\<And>x. x \<in> set (conversation_participants d) \<Longrightarrow>
              p_conversationId x < conversation_seq d"
    using assms by (simp_all add: consistent_def list_all_iff)
  show "find_conversation d (conversation_seq d) = None"
    unfolding find_conversation_def find_None_iff using c by fastforce
  show "filter (\<lambda>p. p_conversationId p = conversation_seq d) (conversation_participants d) = []"
    unfolding filter_empty_conv using p by fastforce
  show "first_participant d (conversation_seq d) u = None"
    unfolding first_participant_def find_None_iff using p by fastforce
qed

lemma create_conversation_props:
  "\<exists>d1. create_conversation d name description createdBy now =
           (\<lparr>c_id = conversation_seq d, c_name = name, c_description = description,
             c_createdBy = createdBy, c_createdAt = now, c_updatedAt = now\<rparr>, d1) \<and>
         users d1 = users d \<and>
         conversations d1 =
           conversations d @
             [\<lparr>c_id = conversation_seq d, c_name = name, c_description = description,
               c_createdBy = createdBy, c_createdAt = now, c_updatedAt = now\<rparr>] \<and>
         conversation_participants d1 = conversation_participants d"
  by (simp add: create_conversation_def Let_def)

lemma insert_participant_props:
  assumes "find_conversation d c \<noteq> None" and "find_user d u \<noteq> None"
    and "first_participant d c u = None"
  shows "\<exists>d' row. insert_participant d c u t = Inr d' \<and> users d' = users d \<and>
           conversations d' = conversations d \<and>
           conversation_participants d' = conversation_participants d @ [row] \<and>
           p_conversationId row = c \<and> p_userId row = u"
  using assms by (simp add: insert_participant_def)

text \<open>
  The first two steps of \<open>store\<close> in a consistent store, for a creator who exists: the
  conversation row and the creator's participant row are written.
\<close>

lemma store_started:
  assumes "consistent d" and "find_user d user_id \<noteq> None"
  shows "\<exists>c d1 d2 row.
           create_conversation d name description user_id now = (c, d1) \<and>
           c = \<lparr>c_id = conversation_seq d, c_name = name, c_description = description,
                 c_createdBy = user_id, c_createdAt = now, c_updatedAt = now\<rparr> \<and>
           insert_participant d1 (conversation_seq d) user_id now = Inr d2 \<and>
           users d2 = users d \<and>
           conversations d2 = conversations d @ [c] \<and>
           conversation_participants d2 = conversation_participants d @ [row] \<and>
           p_conversationId row = conversation_seq d \<and> p_userId row = user_id"
proof -
  let ?c = "\<lparr>c_id = conversation_seq d, c_name = name, c_description = description,
             c_createdBy = user_id, c_createdAt = now, c_updatedAt = now\<rparr>"
  from create_conversation_props [of d name description user_id now] obtain d1 where
    d1: "create_conversation d name description user_id now = (?c, d1)"
      "users d1 = users d" "conversations d1 = conversations d @ [?c]"
      "conversation_participants d1 = conversation_participants d"
    by blast
  have "c_id ?c = conversation_seq d" by simp
  then have "\<exists>x \<in> set (conversations d @ [?c]). c_id x = conversation_seq d"
    by (intro bexI [of _ ?c]) simp_all
  then have a: "find_conversation d1 (conversation_seq d) \<noteq> None"
    unfolding find_conversation_def find_None_iff d1(3) by blast
  have b: "find_user d1 user_id \<noteq> None"
    using assms(2) unfolding find_user_def d1(2) .
  have c: "first_participant d1 (conversation_seq d) user_id = None"
    using fresh_conversation(3) [OF assms(1), of user_id]
    unfolding first_participant_def d1(4) .
  from insert_participant_props [OF a b c, of now] obtain d2 row where
    d2: "insert_participant d1 (conversation_seq d) user_id now = Inr d2"
      "users d2 = users d1" "conversations d2 = conversations d1"
      "conversation_participants d2 = conversation_participants d1 @ [row]"
      "p_conversationId row = conversation_seq d" "p_userId row = user_id"
    by blast
  have "create_conversation d name description user_id now = (?c, d1) \<and>
        ?c = ?c \<and>
        insert_participant d1 (conversation_seq d) user_id now = Inr d2 \<and>
        users d2 = users d \<and> conversations d2 = conversations d @ [?c] \<and>
        conversation_participants d2 = conversation_participants d @ [row] \<and>
        p_conversationId row = conversation_seq d \<and> p_userId row = user_id"
    using d1 d2 by simp
  then show ?thesis
    by (intro exI [of _ ?c] exI [of _ d1] exI [of _ d2] exI [of _ row])
qed

section \<open>Replying to a message\<close>

text \<open>
  The check of the reply target compares the target's \<open>conversationId\<close>, a number read
  from the table, with \<open>params.id\<close> by \<open>!==\<close>. When the route parameter arrives as a
  number, a participant's reply to a message of the same conversation is created and its
  response carries the target's content and the target's author.
\<close>

lemma reply_with_numeric_id:
  assumes "validate_content content = Some trimmed"
    and "isParticipant d (JNum c) user_id = Inr True"
    and "Message_find d (JNum r) = Inr (Some target)" and "r \<noteq> 0"
    and "m_conversationId target = c"
  shows "\<exists>v d'. store_message d (JNum c) user_id content (Some r) now =
           (Created (MessageBody v), d') \<and>
         map_option rs_content (mv_replyTo v) = Some (m_content target) \<and>
         map_option rs_user (mv_replyTo v) = Some (load_user d (m_userId target))"
proof -
  have e: "ensureParticipant d (JNum c) user_id = Inr ()"
    using assms(2) by (simp add: ensureParticipant_def)
  from isParticipant_True [OF assms(2)] have rd: "sql_read (JNum c) = Value c"
    using sql_read_JNum [of c] by auto
  have t: "find_message d r = Some target"
    using assms(3) by_id_JNum_Some [of r "find_message d" target] by (simp add: Message_find_def)
  have k: "check_replyTo d (JNum c) (Some r) = None"
    using assms(3,4,5) by (simp add: check_replyTo_def truthy_def)
  have f: "find_message (snd (create_message d c user_id trimmed (Some r) now)) r = Some target"
    using t by (simp add: create_message_def find_message_def Let_def find_append_Some)
  show ?thesis
    using assms(1,4) e k f rd
    by (simp add: store_message_def or_null_def truthy_def create_message_def Let_def
        load_message_def load_replyTo_def load_user_def find_user_def)
qed

text \<open>
  When the route parameter arrives as a text, which is how the router delivers a path
  segment that no matcher casts (\<open>start/routes.ts\<close> registers none), the comparison is
  between a number and a text and never finds them equal: every reply of a participant to
  an existing message is answered with the cross-conversation error.
\<close>

lemma reply_with_text_id:
  assumes "validate_content content = Some trimmed"
    and "isParticipant d (JStr s) user_id = Inr True"
    and "Message_find d (JNum r) = Inr (Some target)" and "r \<noteq> 0"
  shows "store_message d (JStr s) user_id content (Some r) now =
           (BadRequest ''Cannot reply to a message from a different conversation'', d)"
  using assms
  by (simp add: store_message_def ensureParticipant_def check_replyTo_def truthy_def)

text \<open>
  C1. A participant of a conversation who creates a message there with \<open>replyToId\<close> set to
  a message of the same conversation should get the created message with a reply summary.
  In the example store user 2 takes part in conversation 1 and message 1 belongs to
  conversation 1, yet the request \<open>POST /conversations/1/messages\<close> with \<open>replyToId = 1\<close>
  is answered with 400 "Cannot reply to a message from a different conversation" and
  nothing is stored.
\<close>

theorem reply_within_conversation_is_rejected:
  "isParticipant demo (JStr ''1'') 2 = Inr True \<and>
   map_option m_conversationId (find_message demo 1) = Some 1 \<and>
   sql_int (JStr ''1'') = Some 1 \<and>
   store_message demo (JStr ''1'') 2 ''re: hello'' (Some 1) 30 =
     (BadRequest ''Cannot reply to a message from a different conversation'', demo)"
  by (simp add: store_message_def demo_eval read_eval)

text \<open>
  C5, as stated: a reply to a message of another conversation always fails with the
  cross-conversation error, whoever the caller is. User 3 does not take part in
  conversation 1; replying there to message 3 of conversation 2 is answered with 403, not
  with the cross-conversation error, since membership is checked first.
\<close>

theorem reply_by_outsider_counterexample:
  "map_option m_conversationId (find_message demo 3) = Some 2 \<and>
   sql_int (JStr ''1'') = Some 1 \<and>
   isParticipant demo (JStr ''1'') 3 = Inr False \<and>
   store_message demo (JStr ''1'') 3 ''re: there'' (Some 3) 30 =
     (Forbidden ''You are not a participant in this conversation'', demo) \<and>
   fst (store_message demo (JStr ''1'') 3 ''re: there'' (Some 3) 30) \<noteq>
     BadRequest ''Cannot reply to a message from a different conversation''"
  by (simp add: store_message_def demo_eval read_eval)

text \<open>
  C5, amended: for a caller who takes part in conversation \<open>C\<close> and sends valid content,
  creating a message in \<open>C\<close> with \<open>replyToId\<close> set to an existing message of a different
  conversation fails with the cross-conversation error and stores nothing, whether or not
  the caller takes part in the target's conversation.
\<close>

theorem cross_conversation_reply_rejected:
  assumes "validate_content content \<noteq> None"
    and "isParticipant d conversationId user_id = Inr True"
    and "sql_int conversationId = Some c"
    and "Message_find d (JNum r) = Inr (Some target)" and "r \<noteq> 0"
    and "m_conversationId target \<noteq> c"
  shows "store_message d conversationId user_id content (Some r) now =
           (BadRequest ''Cannot reply to a message from a different conversation'', d)"
proof -
  from assms(1) obtain trimmed where t: "validate_content content = Some trimmed" by auto
  have e: "ensureParticipant d conversationId user_id = Inr ()"
    using assms(2) by (simp add: ensureParticipant_def)
  have "sql_read conversationId = Value c"
    using assms(3) by (rule sql_int_Value)
  then have "\<not> strict_eq (JNum (m_conversationId target)) conversationId"
    using assms(6) by (cases conversationId) (auto simp: in_range_def split: if_splits)
  then have "check_replyTo d conversationId (Some r) =
      Some (BadRequest ''Cannot reply to a message from a different conversation'')"
    using assms(4,5) by (simp add: check_replyTo_def truthy_def)
  then show ?thesis using t e by (simp add: store_message_def)
qed

text \<open>
  User 2 takes part in conversations 1 and 2 and replies in conversation 1 to message 3
  of conversation 2.
\<close>

theorem cross_conversation_reply_rejected_witness:
  "validate_content ''re: there'' \<noteq> None \<and>
   isParticipant demo (JStr ''1'') 2 = Inr True \<and>
   sql_int (JStr ''1'') = Some 1 \<and>
   Message_find demo (JNum 3) =
     Inr (Some \<lparr>m_id = 3, m_conversationId = 2, m_userId = 3, m_content = ''there'',
           m_replyToId = None, m_editedAt = None, m_createdAt = 22, m_updatedAt = 22\<rparr>) \<and>
   store_message demo (JStr ''1'') 2 ''re: there'' (Some 3) 30 =
     (BadRequest ''Cannot reply to a message from a different conversation'', demo)"
proof -
  have a: "validate_content ''re: there'' \<noteq> None" by (simp add: demo_eval)
  have b: "isParticipant demo (JStr ''1'') 2 = Inr True" by (simp add: demo_eval read_eval)
  have c: "sql_int (JStr ''1'') = Some 1" by (simp add: read_eval)
  have f: "Message_find demo (JNum 3) =
     Inr (Some \<lparr>m_id = 3, m_conversationId = 2, m_userId = 3, m_content = ''there'',
           m_replyToId = None, m_editedAt = None, m_createdAt = 22, m_updatedAt = 22\<rparr>)"
    by (simp add: demo_eval read_eval)
  show ?thesis
    using a b c f cross_conversation_reply_rejected [OF a b c f, of 30] by simp
qed

section \<open>Editing a message\<close>

text \<open>
  C3, as stated: an author who has left the conversation is stopped by the membership
  check when updating the message. User 3 wrote message 4 in conversation 1 and takes no
  part in that conversation any more; the update is not answered with the 403 of the
  membership check, and the answer is the one user 2, who takes part in conversation 1,
  gets when updating message 2 of their own.
\<close>

theorem author_who_left_counterexample:
  "map_option m_userId (find_message demo 4) = Some 3 \<and>
   map_option m_conversationId (find_message demo 4) = Some 1 \<and>
   first_participant demo 1 3 = None \<and>
   isParticipant demo (JNum 1) 3 = Inr False \<and>
   isParticipant demo (JNum 1) 2 = Inr True \<and>
   map_option m_userId (find_message demo 2) = Some 2 \<and>
   fst (update_message demo (JStr ''4'') 3 ''changed'' 40) \<noteq>
     Forbidden ''You are not a participant in this conversation'' \<and>
   fst (update_message demo (JStr ''4'') 3 ''changed'' 40) =
     fst (update_message demo (JStr ''2'') 2 ''changed'' 40)"
  by (simp add: update_message_def save_edited_def prepare_dateTime_def demo_eval read_eval)

text \<open>
  C3, amended: \<open>update\<close> makes no membership check; ownership is its only gate. For
  every message and valid content, a caller who is the author passes the checks the
  handler makes, whether or not a participant row exists for them: the update is answered
  neither with a 403 nor with a 404 nor with a 422. A caller who is not the author is
  answered with the 403 of the ownership check. In both cases the answer and the messages
  left behind are the same whatever participant rows the store holds.
\<close>

theorem update_makes_no_membership_check:
  assumes "validate_content content = Some trimmed"
    and "sql_int messageId = Some i"
    and "find_message d i = Some m"
  shows "(m_userId m = user_id \<longrightarrow>
            (\<forall>s. fst (update_message d messageId user_id content now) \<noteq> Forbidden s) \<and>
            (\<forall>s. fst (update_message d messageId user_id content now) \<noteq> NotFound s) \<and>
            fst (update_message d messageId user_id content now) \<noteq> Unprocessable) \<and>
         (m_userId m \<noteq> user_id \<longrightarrow>
            update_message d messageId user_id content now =
              (Forbidden ''You can only edit your own messages'', d)) \<and>
         fst (update_message (d\<lparr>conversation_participants := ps\<rparr>) messageId user_id
                content now) =
           fst (update_message d messageId user_id content now) \<and>
         messages (snd (update_message (d\<lparr>conversation_participants := ps\<rparr>) messageId
                          user_id content now)) =
           messages (snd (update_message d messageId user_id content now))"
proof -
  have rd: "sql_read messageId = Value i"
    using assms(2) by (rule sql_int_Value)
  have f: "Message_find d messageId = Inr (Some m)"
    using rd assms(3) by (simp add: Message_find_def by_id_def)
  have f': "Message_find (d\<lparr>conversation_participants := ps\<rparr>) messageId = Inr (Some m)"
    using rd assms(3) by (simp add: Message_find_def by_id_def find_message_def)
  show ?thesis
    using assms(1) f f'
    by (simp add: update_message_def save_edited_def prepare_dateTime_def)
qed

text \<open>
  User 3, the author of message 4 who has left conversation 1, and user 2, who takes part
  in conversation 1 and is not the author of message 4.
\<close>

theorem update_makes_no_membership_check_witness:
  "validate_content ''  changed '' = Some ''changed'' \<and>
   sql_int (JStr ''4'') = Some 4 \<and>
   map_option m_userId (find_message demo 4) = Some 3 \<and>
   isParticipant demo (JNum 1) 3 = Inr False \<and>
   isParticipant demo (JNum 1) 2 = Inr True \<and>
   (\<forall>s. fst (update_message demo (JStr ''4'') 3 ''  changed '' 40) \<noteq> Forbidden s) \<and>
   (\<forall>s. fst (update_message demo (JStr ''4'') 3 ''  changed '' 40) \<noteq> NotFound s) \<and>
   fst (update_message demo (JStr ''4'') 3 ''  changed '' 40) \<noteq> Unprocessable \<and>
   update_message demo (JStr ''4'') 2 ''  changed '' 40 =
     (Forbidden ''You can only edit your own messages'', demo) \<and>
   fst (update_message (demo\<lparr>conversation_participants := []\<rparr>) (JStr ''4'') 3
          ''  changed '' 40) =
     fst (update_message demo (JStr ''4'') 3 ''  changed '' 40) \<and>
   messages (snd (update_message (demo\<lparr>conversation_participants := []\<rparr>) (JStr ''4'') 3
                    ''  changed '' 40)) =
     messages (snd (update_message demo (JStr ''4'') 3 ''  changed '' 40))"
proof -
  let ?m = "\<lparr>m_id = 4, m_conversationId = 1, m_userId = 3, m_content = ''bye'',
             m_replyToId = None, m_editedAt = None, m_createdAt = 23, m_updatedAt = 23\<rparr>"
  have a: "validate_content ''  changed '' = Some ''changed''" by (simp add: demo_eval)
  have b: "sql_int (JStr ''4'') = Some 4" by (simp add: read_eval)
  have c: "find_message demo 4 = Some ?m" by (simp add: demo_eval)
  have p: "isParticipant demo (JNum 1) 3 = Inr False" by (simp add: demo_eval read_eval)
  have q: "isParticipant demo (JNum 1) 2 = Inr True" by (simp add: demo_eval read_eval)
  show ?thesis
    using a b c p q
      update_makes_no_membership_check
        [OF a b c, where user_id = 3 and ps = "[]" and now = 40]
      update_makes_no_membership_check
        [OF a b c, where user_id = 2 and ps = "[]" and now = 40]
    by simp
qed

section \<open>Conversations that do not exist\<close>

text \<open>
  C10, as stated: for every conversation id that names no conversation, \<open>update\<close> and
  \<open>destroy\<close> answer 403. The ids \<open>abc\<close> and \<open>99999999999\<close> name no conversation; the
  database refuses them for the integer column, the lookup throws, the \<open>catch\<close> block
  throws the error again, and neither handler answers 403.
\<close>

theorem unreadable_conversation_id_counterexample:
  "Conversation_find demo (JStr ''abc'') = Inl InvalidInteger \<and>
   update_conversation demo (JStr ''abc'') 1 \<lparr>up_name = Some ''x'', up_description = None\<rparr> 30 =
     (Thrown InvalidInteger, demo) \<and>
   destroy_conversation demo (JStr ''abc'') 1 = (Thrown InvalidInteger, demo) \<and>
   update_conversation demo (JStr ''99999999999'') 1
       \<lparr>up_name = Some ''x'', up_description = None\<rparr> 30 =
     (Thrown InvalidInteger, demo) \<and>
   destroy_conversation demo (JStr ''99999999999'') 1 = (Thrown InvalidInteger, demo)"
  by (simp add: update_conversation_def destroy_conversation_def ensureCreator_def
      isCreator_def catch_creator_def read_eval)

text \<open>
  C10, amended: for every user and every conversation id that the database reads as an
  integer of the column and for which the lookup finds no conversation, \<open>isCreator\<close> is
  false, and both \<open>update\<close> and \<open>destroy\<close> of the conversation answer 403 with the "only
  the creator" message and leave the store as it is: the same answer a participant who is
  not the creator gets, and never a not-found answer.
\<close>

theorem missing_conversation_is_forbidden:
  assumes "Conversation_find d conversationId = Inr None"
  shows "isCreator d conversationId user_id = Inr False \<and>
         update_conversation d conversationId user_id payload now =
           (Forbidden ''Only the creator can update this conversation'', d) \<and>
         destroy_conversation d conversationId user_id =
           (Forbidden ''Only the creator can delete this conversation'', d)"
  using assms
  by (simp add: isCreator_def ensureCreator_def update_conversation_def
      destroy_conversation_def catch_creator_def)

theorem missing_conversation_is_forbidden_witness:
  "Conversation_find demo (JStr ''9'') = Inr None \<and>
   isCreator demo (JStr ''9'') 1 = Inr False \<and>
   update_conversation demo (JStr ''9'') 1 \<lparr>up_name = Some ''x'', up_description = None\<rparr> 30 =
     (Forbidden ''Only the creator can update this conversation'', demo) \<and>
   destroy_conversation demo (JStr ''9'') 1 =
     (Forbidden ''Only the creator can delete this conversation'', demo)"
proof -
  have a: "Conversation_find demo (JStr ''9'') = Inr None"
    by (simp add: demo_eval read_eval)
  show ?thesis
    using a
      missing_conversation_is_forbidden
        [OF a, of 1 "\<lparr>up_name = Some ''x'', up_description = None\<rparr>" 30]
    by simp
qed

section \<open>Removing a participant\<close>

text \<open>
  C7, as stated: for a caller and a target who both take part in the conversation, removing
  the target twice gives success and then "participant not found". User 2 takes part in
  conversation 1 and removes themself: the first call succeeds, the second is answered
  with 403, since the caller is no participant any more.
\<close>

theorem remove_self_twice_counterexample:
  "isParticipant demo (JStr ''1'') 2 = Inr True \<and>
   first_participant demo 1 2 \<noteq> None \<and>
   fst (removeParticipant demo (JStr ''1'') (JStr ''2'') 2) =
     Ok (Text ''Participant removed successfully'') \<and>
   fst (removeParticipant (snd (removeParticipant demo (JStr ''1'') (JStr ''2'') 2))
          (JStr ''1'') (JStr ''2'') 2) =
     Forbidden ''You are not a participant in this conversation''"
  by (simp add: removeParticipant_def delete_participant_def demo_eval read_eval)

text \<open>
  C7, amended: in a consistent store, for a caller who takes part in the conversation and
  a target other than the caller who takes part in it, removing the target twice in
  succession gives success on the first call and "participant not found" on the second.
\<close>

theorem remove_other_twice:
  assumes "consistent d"
    and "isParticipant d conversationId user_id = Inr True"
    and "sql_int conversationId = Some c" and "sql_int userId = Some t"
    and "first_participant d c t \<noteq> None"
    and "t \<noteq> user_id"
  shows "\<exists>d1. removeParticipant d conversationId userId user_id =
                 (Ok (Text ''Participant removed successfully''), d1) \<and>
              removeParticipant d1 conversationId userId user_id =
                 (NotFound ''Participant not found'', d1)"
proof -
  let ?ps = "conversation_participants d"
  from assms(5) obtain p where p: "first_participant d c t = Some p" by auto
  have rc: "sql_read conversationId = Value c" and rt: "sql_read userId = Value t"
    using assms(3,4) by (simp_all add: sql_int_Value)
  from isParticipant_True [OF assms(2)] rc
  have ur: "user_id \<le> int4_max" and "first_participant d c user_id \<noteq> None"
    by auto
  then obtain q where q: "first_participant d c user_id = Some q"
    by auto
  have pin: "p \<in> set ?ps" and pc: "p_conversationId p = c" and pt: "p_userId p = t"
    using p find_Some_set [of _ ?ps p] find_Some_pred [of _ ?ps p]
    by (auto simp: first_participant_def)
  have qin: "q \<in> set ?ps" and qc: "p_conversationId q = c" and qu: "p_userId q = user_id"
    using q find_Some_set [of _ ?ps q] find_Some_pred [of _ ?ps q]
    by (auto simp: first_participant_def)
  have dk: "distinct (map p_id ?ps)"
    and dp: "distinct (map (\<lambda>p. (p_conversationId p, p_userId p)) ?ps)"
    using assms(1) by (auto simp: consistent_def)
  let ?d1 = "delete_participant d p"
  have e: "ensureParticipant d conversationId user_id = Inr ()"
    using assms(2) by (simp add: ensureParticipant_def)
  have first: "removeParticipant d conversationId userId user_id =
      (Ok (Text ''Participant removed successfully''), ?d1)"
    using e p Participant_first_Value [OF rc rt, of d] by (simp add: removeParticipant_def)
  have "p_id q \<noteq> p_id p"
    using distinct_map_eq [OF dk qin pin] qu pt assms(6) by auto
  then have "q \<in> set (conversation_participants ?d1)"
    using qin by (simp add: delete_participant_def)
  then have "first_participant ?d1 c user_id \<noteq> None"
    using qc qu by (auto simp: first_participant_def find_None_iff)
  then have e1: "ensureParticipant ?d1 conversationId user_id = Inr ()"
    using isParticipant_Value [OF rc ur, of ?d1] by (simp add: ensureParticipant_def)
  have "\<And>x. x \<in> set (conversation_participants ?d1) \<Longrightarrow>
          \<not> (p_conversationId x = c \<and> p_userId x = t)"
  proof
    fix x
    assume x: "x \<in> set (conversation_participants ?d1)"
      and xp: "p_conversationId x = c \<and> p_userId x = t"
    from x have xin: "x \<in> set ?ps" and xid: "p_id x \<noteq> p_id p"
      by (auto simp: delete_participant_def)
    have "x = p"
      using distinct_map_eq [OF dp xin pin] xp pc pt by simp
    with xid show False by simp
  qed
  then have "first_participant ?d1 c t = None"
    by (auto simp: first_participant_def find_None_iff)
  then have second: "removeParticipant ?d1 conversationId userId user_id =
      (NotFound ''Participant not found'', ?d1)"
    using e1 Participant_first_Value [OF rc rt, of ?d1] by (simp add: removeParticipant_def)
  from first second show ?thesis by blast
qed

theorem remove_other_twice_witness:
  "consistent demo \<and> isParticipant demo (JStr ''1'') 1 = Inr True \<and>
   sql_int (JStr ''1'') = Some 1 \<and> sql_int (JStr ''2'') = Some 2 \<and>
   first_participant demo 1 2 \<noteq> None \<and>
   (\<exists>d1. removeParticipant demo (JStr ''1'') (JStr ''2'') 1 =
                 (Ok (Text ''Participant removed successfully''), d1) \<and>
              removeParticipant d1 (JStr ''1'') (JStr ''2'') 1 =
                 (NotFound ''Participant not found'', d1))"
proof -
  have a: "consistent demo" by (simp add: consistent_def demo_def)
  have b: "isParticipant demo (JStr ''1'') 1 = Inr True" by (simp add: demo_eval read_eval)
  have c: "sql_int (JStr ''1'') = Some 1" by (simp add: read_eval)
  have t: "sql_int (JStr ''2'') = Some 2" by (simp add: read_eval)
  have f: "first_participant demo 1 2 \<noteq> None" by (simp add: demo_eval)
  have n: "(2::nat) \<noteq> 1" by simp
  show ?thesis
    using a b c t f remove_other_twice [OF a b c t f n] by simp
qed

section \<open>Deleting a message\<close>

text \<open>
  C8. When the author deletes a message that another message replies to, the handler
  answers 204, the deleted message is gone, the replying message is still there with its
  \<open>replyToId\<close> cleared, and every other message is still there: nothing is deleted along
  with the target.
\<close>

theorem delete_keeps_replies:
  assumes "sql_int messageId = Some i"
    and "find_message d i = Some m"
    and "m_userId m = user_id"
    and "r \<in> set (messages d)"
    and "m_replyToId r = Some i"
    and "m_id r \<noteq> i"
  shows "\<exists>d'. destroy_message d messageId user_id = (NoContent, d') \<and>
           find_message d' i = None \<and>
           r\<lparr>m_replyToId := None\<rparr> \<in> set (messages d') \<and>
           map m_id (messages d') = filter (\<lambda>j. j \<noteq> i) (map m_id (messages d))"
proof -
  let ?gone = "\<lambda>x. m_id x = m_id m"
  let ?d' = "delete_message d m"
  have mi: "m_id m = i" and min: "m \<in> set (messages d)"
    using assms(2) find_Some_pred [of _ "messages d" m] find_Some_set [of _ "messages d" m]
    by (auto simp: find_message_def)
  have "Message_find d messageId = Inr (Some m)"
    using sql_int_Value [OF assms(1)] assms(2) by (simp add: Message_find_def by_id_def)
  then have run: "destroy_message d messageId user_id = (NoContent, ?d')"
    using assms(3) by (simp add: destroy_message_def)
  have msgs: "messages ?d' = delete_messages ?gone (messages d)"
    by (simp add: delete_message_def)
  have ids: "map m_id (messages ?d') = filter (\<lambda>j. j \<noteq> i) (map m_id (messages d))"
    unfolding msgs delete_messages_ids by (simp add: filter_map comp_def mi)
  have "i \<notin> set (map m_id (messages ?d'))"
    unfolding ids by simp
  then have gone: "find_message ?d' i = None"
    by (auto simp: find_message_def find_None_iff)
  have kept: "r\<lparr>m_replyToId := None\<rparr> \<in> set (messages ?d')"
    unfolding msgs
    by (rule delete_messages_cleared [where x = m and k = i])
       (use assms(4,5,6) mi min in simp_all)
  from run gone kept ids show ?thesis by blast
qed

theorem delete_keeps_replies_witness:
  "sql_int (JStr ''1'') = Some 1 \<and>
   map_option m_userId (find_message demo 1) = Some 1 \<and>
   map_option m_replyToId (find_message demo 2) = Some (Some 1) \<and>
   (\<exists>d'. destroy_message demo (JStr ''1'') 1 = (NoContent, d') \<and>
      find_message d' 1 = None \<and>
      find_message d' 2 =
        Some \<lparr>m_id = 2, m_conversationId = 1, m_userId = 2, m_content = ''hi'',
          m_replyToId = None, m_editedAt = None, m_createdAt = 21, m_updatedAt = 21\<rparr> \<and>
      map m_id (messages d') = [2, 3, 4])"
proof -
  let ?r = "\<lparr>m_id = 2, m_conversationId = 1, m_userId = 2, m_content = ''hi'',
          m_replyToId = Some 1, m_editedAt = None, m_createdAt = 21, m_updatedAt = 21\<rparr>"
  have a: "sql_int (JStr ''1'') = Some 1" by (simp add: read_eval)
  have b: "find_message demo 1 = Some \<lparr>m_id = 1, m_conversationId = 1, m_userId = 1, m_content = ''hello'',
          m_replyToId = None, m_editedAt = None, m_createdAt = 20, m_updatedAt = 20\<rparr>"
    by (simp add: demo_eval)
  have c: "m_userId \<lparr>m_id = 1, m_conversationId = 1, m_userId = 1, m_content = ''hello'',
          m_replyToId = None, m_editedAt = None, m_createdAt = 20, m_updatedAt = 20\<rparr> = 1" by simp
  have r: "?r \<in> set (messages demo)" by (simp add: demo_def)
  have t: "m_replyToId ?r = Some 1" by simp
  have n: "m_id ?r \<noteq> 1" by simp
  have f2: "find_message demo 2 = Some ?r" by (simp add: demo_eval)
  have e: "destroy_message demo (JStr ''1'') 1 = (NoContent, delete_message demo \<lparr>m_id = 1, m_conversationId = 1, m_userId = 1, m_content = ''hello'',
          m_replyToId = None, m_editedAt = None, m_createdAt = 20, m_updatedAt = 20\<rparr>)"
    using b by (simp add: destroy_message_def read_eval)
  show ?thesis
    using a b f2 delete_keeps_replies [OF a b c r t n]
    unfolding e
    by (simp add: delete_message_def delete_messages_def demo_eval)
qed

section \<open>Adding a participant from two requests at once\<close>

text \<open>
  Two requests that add the same user to the same conversation interleave at their
  awaits: both run \<open>addParticipant_check\<close> on the same store and pass, then both run
  \<open>addParticipant_insert\<close>, one after the other.

  C4, as stated: the request whose insert comes second is answered with "already a
  participant". Users 1 and 2 both add user 3 to conversation 1: the second insert breaks
  the unique constraint, the \<open>catch\<close> block throws that error again, and the handler never
  answers 400 "User is already a participant".
\<close>

theorem concurrent_add_counterexample:
  "addParticipant_check demo (JStr ''1'') 1 3 = None \<and>
   addParticipant_check demo (JStr ''1'') 2 3 = None \<and>
   fst (addParticipant_insert demo (JStr ''1'') 3 40) =
     Ok (Text ''Participant added successfully'') \<and>
   fst (addParticipant_insert (snd (addParticipant_insert demo (JStr ''1'') 3 40))
          (JStr ''1'') 3 41) = Thrown UniqueViolation \<and>
   fst (addParticipant_insert (snd (addParticipant_insert demo (JStr ''1'') 3 40))
          (JStr ''1'') 3 41) \<noteq> BadRequest ''User is already a participant''"
  by (simp add: addParticipant_check_def addParticipant_insert_def insert_participant_def
      demo_eval read_eval)

text \<open>
  C4, amended: when two requests adding user \<open>U\<close> to an existing conversation \<open>C\<close> both
  pass the checks on the same store and both insert, the first insert succeeds, the
  second fails on the unique constraint and leaves the store as it is, so exactly one
  participant row for \<open>(C, U)\<close> is stored and at most one request succeeds; the failure
  leaves the handler as the database's error, not as "already a participant".
\<close>

theorem concurrent_add_one_row:
  assumes "addParticipant_check d conversationId caller1 userId = None"
    and "addParticipant_check d conversationId caller2 userId = None"
    and "sql_int conversationId = Some c"
    and "find_conversation d c \<noteq> None"
  shows "\<exists>d1. addParticipant_insert d conversationId userId now1 =
                 (Ok (Text ''Participant added successfully''), d1) \<and>
              addParticipant_insert d1 conversationId userId now2 =
                 (Thrown UniqueViolation, d1) \<and>
              length (filter (\<lambda>p. p_conversationId p = c \<and> p_userId p = userId)
                        (conversation_participants d1)) = 1"
proof -
  let ?P = "\<lambda>p. p_conversationId p = c \<and> p_userId p = userId"
  let ?row = "\<lparr>p_id = participant_seq d, p_conversationId = c, p_userId = userId,
               p_joinedAt = now1\<rparr>"
  let ?d1 = "d\<lparr>conversation_participants := conversation_participants d @ [?row],
               participant_seq := Suc (participant_seq d)\<rparr>"
  have rc: "sql_read conversationId = Value c"
    using assms(3) by (rule sql_int_Value)
  have pf: "Participant_first d conversationId (JNum userId) = Inr None"
    and uf: "\<exists>u. User_find d (JNum userId) = Inr (Some u)"
    using assms(1)
    by (auto simp: addParticipant_check_def split: sum.splits option.splits)
  from uf have ur: "userId \<le> int4_max" and usr: "find_user d userId \<noteq> None"
    using by_id_JNum_Some [of userId "find_user d"] by (auto simp: User_find_def)
  have ru: "sql_read (JNum userId) = Value userId"
    using ur by (rule sql_read_JNum_le)
  have none: "first_participant d c userId = None"
    using pf Participant_first_Value [OF rc ru, of d] by simp
  have ins: "insert_participant d c userId now1 = Inr ?d1"
    using none usr assms(4) by (simp add: insert_participant_def)
  then have first: "addParticipant_insert d conversationId userId now1 =
      (Ok (Text ''Participant added successfully''), ?d1)"
    using rc ru by (simp add: addParticipant_insert_def Participant_create_def)
  have "first_participant ?d1 c userId = Some ?row"
    using none by (simp add: first_participant_def find_append_None)
  moreover have "find_conversation ?d1 c \<noteq> None" "find_user ?d1 userId \<noteq> None"
    using assms(4) usr by (simp_all add: find_conversation_def find_user_def)
  ultimately have "insert_participant ?d1 c userId now2 = Inl UniqueViolation"
    by (simp add: insert_participant_def)
  then have second: "addParticipant_insert ?d1 conversationId userId now2 =
      (Thrown UniqueViolation, ?d1)"
    using rc ru
    by (simp add: addParticipant_insert_def Participant_create_def catch_participant_def)
  have "filter ?P (conversation_participants d) = []"
    using none by (simp add: first_participant_def find_None_iff filter_empty_conv)
  then have one: "length (filter ?P (conversation_participants ?d1)) = 1"
    by simp
  from first second one show ?thesis by blast
qed

theorem concurrent_add_one_row_witness:
  "addParticipant_check demo (JStr ''1'') 1 3 = None \<and>
   addParticipant_check demo (JStr ''1'') 2 3 = None \<and>
   sql_int (JStr ''1'') = Some 1 \<and> find_conversation demo 1 \<noteq> None \<and>
   (\<exists>d1. addParticipant_insert demo (JStr ''1'') 3 40 =
                 (Ok (Text ''Participant added successfully''), d1) \<and>
              addParticipant_insert d1 (JStr ''1'') 3 41 =
                 (Thrown UniqueViolation, d1) \<and>
              length (filter (\<lambda>p. p_conversationId p = 1 \<and> p_userId p = 3)
                        (conversation_participants d1)) = 1)"
proof -
  have a: "addParticipant_check demo (JStr ''1'') 1 3 = None"
    by (simp add: addParticipant_check_def demo_eval read_eval)
  have b: "addParticipant_check demo (JStr ''1'') 2 3 = None"
    by (simp add: addParticipant_check_def demo_eval read_eval)
  have c: "sql_int (JStr ''1'') = Some 1" by (simp add: read_eval)
  have e: "find_conversation demo 1 \<noteq> None" by (simp add: demo_eval)
  show ?thesis
    using a b c e concurrent_add_one_row [OF a b c e, of 40 41] by simp
qed

section \<open>Listing messages\<close>

text \<open>
  C9. For every conversation that holds 120 messages and every participant who lists them
  with a page size of 50, pages 1 and 2 hold 50 entries each and page 3 holds 20; the
  entries of the three pages taken in order are the conversation's messages, each once,
  from the newest to the oldest, with the id, the author, the content and the time of
  creation of each; and a request that gives no page size is answered as one that asks
  for 50.
\<close>

theorem pages_of_120:
  assumes "isParticipant d conversationId user_id = Inr True"
    and "sql_int conversationId = Some c"
    and "length (filter (\<lambda>m. m_conversationId m = c) (messages d)) = 120"
  shows "\<exists>p1 p2 p3 rows.
           index_messages d conversationId user_id (Some 1) (Some 50) = Ok (PageBody p1) \<and>
           index_messages d conversationId user_id (Some 2) (Some 50) = Ok (PageBody p2) \<and>
           index_messages d conversationId user_id (Some 3) (Some 50) = Ok (PageBody p3) \<and>
           length (pg_data p1) = 50 \<and> length (pg_data p2) = 50 \<and> length (pg_data p3) = 20 \<and>
           mset rows = mset (filter (\<lambda>m. m_conversationId m = c) (messages d)) \<and>
           sorted_wrt (\<lambda>a b. m_createdAt a \<ge> m_createdAt b) rows \<and>
           map mv_id (pg_data p1 @ pg_data p2 @ pg_data p3) = map m_id rows \<and>
           map mv_userId (pg_data p1 @ pg_data p2 @ pg_data p3) = map m_userId rows \<and>
           map mv_content (pg_data p1 @ pg_data p2 @ pg_data p3) = map m_content rows \<and>
           map mv_createdAt (pg_data p1 @ pg_data p2 @ pg_data p3) = map m_createdAt rows \<and>
           sorted_wrt (\<lambda>a b. mv_createdAt a \<ge> mv_createdAt b)
             (pg_data p1 @ pg_data p2 @ pg_data p3) \<and>
           index_messages d conversationId user_id page None =
             index_messages d conversationId user_id page (Some 50)"
proof -
  let ?found = "filter (\<lambda>m. m_conversationId m = c) (messages d)"
  let ?rows = "newest_first ?found"
  let ?view = "\<lambda>m. load_message d (JNum (m_conversationId m)) m"
  let ?page = "\<lambda>n xs. \<lparr>pg_total = 120, pg_perPage = 50, pg_currentPage = n,
                        pg_data = map ?view xs\<rparr>"
  let ?p1 = "?page 1 (take 50 ?rows)"
  let ?p2 = "?page 2 (take 50 (drop 50 ?rows))"
  let ?p3 = "?page 3 (take 50 (drop 100 ?rows))"
  have len: "length ?rows = 120"
    using assms(3) by (simp add: length_newest_first)
  have e: "ensureParticipant d conversationId user_id = Inr ()"
    using assms(1) by (simp add: ensureParticipant_def)
  have q: "Message_of_conversation d conversationId = Inr ?found"
    using sql_int_Value [OF assms(2)] by (simp add: Message_of_conversation_def)
  have ne: "?rows \<noteq> []"
    using len by auto
  have run: "\<And>n. 0 < n \<Longrightarrow>
      index_messages d conversationId user_id (Some n) (Some 50) =
        Ok (PageBody (?page n (take 50 (drop (50 * (n - 1)) ?rows))))"
    using e q len ne by (simp add: index_messages_def input_def paginate_def Let_def)
  have r1: "index_messages d conversationId user_id (Some 1) (Some 50) = Ok (PageBody ?p1)"
    using run [of 1] by simp
  have r2: "index_messages d conversationId user_id (Some 2) (Some 50) = Ok (PageBody ?p2)"
    using run [of 2] by simp
  have r3: "index_messages d conversationId user_id (Some 3) (Some 50) = Ok (PageBody ?p3)"
    using run [of 3] by simp
  have "map ?view (take 50 ?rows) @ map ?view (take 50 (drop 50 ?rows)) @
          map ?view (take 50 (drop 100 ?rows)) = map ?view ?rows"
    using three_pages [OF len] by (metis map_append)
  then have all: "pg_data ?p1 @ pg_data ?p2 @ pg_data ?p3 = map ?view ?rows"
    by simp
  have l1: "length (pg_data ?p1) = 50" and l2: "length (pg_data ?p2) = 50"
    and l3: "length (pg_data ?p3) = 20"
    using len by simp_all
  have ms: "mset ?rows = mset ?found"
    by (simp add: newest_first_def)
  have so: "sorted_wrt (\<lambda>a b. m_createdAt a \<ge> m_createdAt b) ?rows"
    by (rule newest_first_sorted)
  have i1: "map mv_id (map ?view ?rows) = map m_id ?rows"
    and i2: "map mv_userId (map ?view ?rows) = map m_userId ?rows"
    and i3: "map mv_content (map ?view ?rows) = map m_content ?rows"
    and i4: "map mv_createdAt (map ?view ?rows) = map m_createdAt ?rows"
    by (simp_all add: load_message_def)
  have ord: "sorted_wrt (\<lambda>a b. mv_createdAt a \<ge> mv_createdAt b) (map ?view ?rows)"
    using so by (simp add: sorted_wrt_map load_message_def)
  have fifty: "input None 50 = input (Some 50) 50"
    by (simp add: input_def)
  have dflt: "index_messages d conversationId user_id page None =
      index_messages d conversationId user_id page (Some 50)"
    unfolding index_messages_def fifty ..
  have "index_messages d conversationId user_id (Some 1) (Some 50) = Ok (PageBody ?p1) \<and>
        index_messages d conversationId user_id (Some 2) (Some 50) = Ok (PageBody ?p2) \<and>
        index_messages d conversationId user_id (Some 3) (Some 50) = Ok (PageBody ?p3) \<and>
        length (pg_data ?p1) = 50 \<and> length (pg_data ?p2) = 50 \<and> length (pg_data ?p3) = 20 \<and>
        mset ?rows = mset ?found \<and>
        sorted_wrt (\<lambda>a b. m_createdAt a \<ge> m_createdAt b) ?rows \<and>
        map mv_id (pg_data ?p1 @ pg_data ?p2 @ pg_data ?p3) = map m_id ?rows \<and>
        map mv_userId (pg_data ?p1 @ pg_data ?p2 @ pg_data ?p3) = map m_userId ?rows \<and>
        map mv_content (pg_data ?p1 @ pg_data ?p2 @ pg_data ?p3) = map m_content ?rows \<and>
        map mv_createdAt (pg_data ?p1 @ pg_data ?p2 @ pg_data ?p3) = map m_createdAt ?rows \<and>
        sorted_wrt (\<lambda>a b. mv_createdAt a \<ge> mv_createdAt b)
          (pg_data ?p1 @ pg_data ?p2 @ pg_data ?p3) \<and>
        index_messages d conversationId user_id page None =
          index_messages d conversationId user_id page (Some 50)"
    unfolding all using r1 r2 r3 l1 l2 l3 ms so i1 i2 i3 i4 ord dflt by (intro conjI)
  then show ?thesis
    by (intro exI [of _ ?p1] exI [of _ ?p2] exI [of _ ?p3] exI [of _ ?rows])
qed

theorem pages_of_120_witness:
  "isParticipant busy (JStr ''1'') 2 = Inr True \<and> sql_int (JStr ''1'') = Some 1 \<and>
   length (filter (\<lambda>m. m_conversationId m = 1) (messages busy)) = 120 \<and>
   (\<exists>p1 p2 p3 rows.
           index_messages busy (JStr ''1'') 2 (Some 1) (Some 50) = Ok (PageBody p1) \<and>
           index_messages busy (JStr ''1'') 2 (Some 2) (Some 50) = Ok (PageBody p2) \<and>
           index_messages busy (JStr ''1'') 2 (Some 3) (Some 50) = Ok (PageBody p3) \<and>
           length (pg_data p1) = 50 \<and> length (pg_data p2) = 50 \<and> length (pg_data p3) = 20 \<and>
           mset rows = mset (filter (\<lambda>m. m_conversationId m = 1) (messages busy)) \<and>
           sorted_wrt (\<lambda>a b. m_createdAt a \<ge> m_createdAt b) rows \<and>
           map mv_id (pg_data p1 @ pg_data p2 @ pg_data p3) = map m_id rows \<and>
           map mv_userId (pg_data p1 @ pg_data p2 @ pg_data p3) = map m_userId rows \<and>
           map mv_content (pg_data p1 @ pg_data p2 @ pg_data p3) = map m_content rows \<and>
           map mv_createdAt (pg_data p1 @ pg_data p2 @ pg_data p3) = map m_createdAt rows \<and>
           sorted_wrt (\<lambda>a b. mv_createdAt a \<ge> mv_createdAt b)
             (pg_data p1 @ pg_data p2 @ pg_data p3) \<and>
           index_messages busy (JStr ''1'') 2 (Some 1) None =
             index_messages busy (JStr ''1'') 2 (Some 1) (Some 50))"
proof -
  have a: "isParticipant busy (JStr ''1'') 2 = Inr True"
    by (simp add: busy_def demo_eval read_eval)
  have b: "sql_int (JStr ''1'') = Some 1" by (simp add: read_eval)
  have c: "length (filter (\<lambda>m. m_conversationId m = 1) (messages busy)) = 120"
    by (simp add: busy_def filter_map comp_def)
  from pages_of_120 [OF a b c, of "Some 1"] a b c show ?thesis
    by (intro conjI)
qed

section \<open>Creating a conversation\<close>

text \<open>
  C2, as stated: whenever the list of participant ids holds an id that names no user, the
  call fails with the "invalid participant" answer. The validator lets the number
  \<open>3000000000\<close> through; it names no user, the database refuses it for the integer column
  \<open>users.id\<close>, the query throws, and the handler, which has no \<open>catch\<close> block, does not
  answer 400. The conversation and the creator's participant row are in the store all the
  same.
\<close>

theorem oversized_participant_id_counterexample:
  "find_user demo 1 \<noteq> None \<and> find_user demo 3000000000 = None \<and>
   fst (store_conversation demo 1
          \<lparr>cp_name = None, cp_description = None, cp_participantIds = [3000000000]\<rparr> 50) =
     Thrown InvalidInteger \<and>
   fst (store_conversation demo 1
          \<lparr>cp_name = None, cp_description = None, cp_participantIds = [3000000000]\<rparr> 50) \<noteq>
     BadRequest ''One or more participant IDs are invalid'' \<and>
   map_option c_createdBy
     (find_conversation
        (snd (store_conversation demo 1
                \<lparr>cp_name = None, cp_description = None,
                 cp_participantIds = [3000000000]\<rparr> 50)) 3) = Some 1"
  by (simp add: store_conversation_def create_conversation_def insert_participant_def
      demo_eval read_eval)

text \<open>
  C2, amended: in a consistent store, when an existing user creates a conversation, every
  listed participant id lies in the range of the integer column and one of them names no
  user, the handler answers 400 "One or more participant IDs are invalid"; the
  conversation row, which was not there before, and the creator's participant row are in
  the store the handler leaves behind, and no other participant row of the new
  conversation is.
\<close>

theorem invalid_participant_leaves_conversation:
  assumes "consistent d"
    and "find_user d user_id \<noteq> None"
    and "list_all (\<lambda>i. i \<le> int4_max) (cp_participantIds payload)"
    and "x \<in> set (cp_participantIds payload)"
    and "find_user d x = None"
  shows "\<exists>d'. store_conversation d user_id payload now =
                 (BadRequest ''One or more participant IDs are invalid'', d') \<and>
              find_conversation d (conversation_seq d) = None \<and>
              find_conversation d' (conversation_seq d) =
                Some \<lparr>c_id = conversation_seq d, c_name = cp_name payload,
                      c_description = cp_description payload, c_createdBy = user_id,
                      c_createdAt = now, c_updatedAt = now\<rparr> \<and>
              first_participant d' (conversation_seq d) user_id \<noteq> None \<and>
              map p_userId
                (filter (\<lambda>p. p_conversationId p = conversation_seq d)
                   (conversation_participants d')) = [user_id]"
proof -
  let ?seq = "conversation_seq d"
  let ?ids = "filter (\<lambda>i. i \<noteq> user_id) (cp_participantIds payload)"
  from store_started [OF assms(1,2), of "cp_name payload" "cp_description payload" now]
  obtain c d1 d2 row where
    st: "create_conversation d (cp_name payload) (cp_description payload) user_id now = (c, d1)"
      "c = \<lparr>c_id = ?seq, c_name = cp_name payload, c_description = cp_description payload,
            c_createdBy = user_id, c_createdAt = now, c_updatedAt = now\<rparr>"
      "insert_participant d1 ?seq user_id now = Inr d2"
      "users d2 = users d" "conversations d2 = conversations d @ [c]"
      "conversation_participants d2 = conversation_participants d @ [row]"
      "p_conversationId row = ?seq" "p_userId row = user_id"
    by blast
  have cid: "c_id c = ?seq" using st(2) by simp
  have xu: "x \<noteq> user_id" using assms(2,5) by auto
  then have xin: "x \<in> set ?ids" using assms(4) by simp
  have du: "distinct (map u_id (users d))" using assms(1) by (simp add: consistent_def)
  have xn: "x \<notin> set (map u_id (users d))" using assms(5) find_user_iff [of d x] by simp
  have less: "length (filter (\<lambda>u. u_id u \<in> set ?ids) (users d2)) < length ?ids"
    unfolding st(4) by (rule found_length_less [OF du xin xn])
  have "list_all (\<lambda>i. i \<le> int4_max) ?ids"
    using assms(3) by (simp add: list_all_iff)
  then have wi: "User_whereIn d2 ?ids = Inr (filter (\<lambda>u. u_id u \<in> set ?ids) (users d2))"
    by (simp add: User_whereIn_def)
  have ne: "cp_participantIds payload \<noteq> []" using assms(4) by auto
  have pos: "0 < length ?ids" using xin by (cases ?ids) auto
  have run: "store_conversation d user_id payload now =
      (BadRequest ''One or more participant IDs are invalid'', d2)"
    unfolding store_conversation_def using ne pos less wi st(1,3) cid
    by (simp add: Let_def)
  have f0: "find_conversation d ?seq = None"
    by (rule fresh_conversation(1) [OF assms(1)])
  have f1: "find_conversation d2 ?seq = Some c"
    using f0 cid unfolding find_conversation_def st(5) by (simp add: find_append_None)
  have p0: "first_participant d ?seq user_id = None"
    by (rule fresh_conversation(3) [OF assms(1)])
  have "first_participant d2 ?seq user_id = Some row"
    using p0 st(7,8) unfolding first_participant_def st(6) by (simp add: find_append_None)
  then have p1: "first_participant d2 ?seq user_id \<noteq> None"
    by simp
  have rows: "map p_userId (filter (\<lambda>p. p_conversationId p = ?seq)
      (conversation_participants d2)) = [user_id]"
    unfolding st(6) using fresh_conversation(2) [OF assms(1)] st(7,8) by simp
  from run f0 f1 p1 rows show ?thesis
    unfolding st(2) by (intro exI [of _ d2]) simp
qed

theorem invalid_participant_leaves_conversation_witness:
  "consistent demo \<and> find_user demo 1 \<noteq> None \<and> find_user demo 7 = None \<and>
   list_all (\<lambda>i. i \<le> int4_max) [2, 7] \<and>
   (\<exists>d'. store_conversation demo 1
            \<lparr>cp_name = Some ''team'', cp_description = None, cp_participantIds = [2, 7]\<rparr> 50 =
                 (BadRequest ''One or more participant IDs are invalid'', d') \<and>
              find_conversation demo (conversation_seq demo) = None \<and>
              find_conversation d' (conversation_seq demo) =
                Some \<lparr>c_id = conversation_seq demo, c_name = Some ''team'',
                      c_description = None, c_createdBy = 1,
                      c_createdAt = 50, c_updatedAt = 50\<rparr> \<and>
              first_participant d' (conversation_seq demo) 1 \<noteq> None \<and>
              map p_userId
                (filter (\<lambda>p. p_conversationId p = conversation_seq demo)
                   (conversation_participants d')) = [1])"
proof -
  have a: "consistent demo" by (simp add: consistent_def demo_def)
  have b: "find_user demo 1 \<noteq> None" by (simp add: demo_eval)
  have c: "(7::nat) \<in> set (cp_participantIds
      \<lparr>cp_name = Some ''team'', cp_description = None, cp_participantIds = [2, 7]\<rparr>)"
    by simp
  have e: "find_user demo 7 = None" by (simp add: demo_eval)
  have r: "list_all (\<lambda>i. i \<le> int4_max) (cp_participantIds
      \<lparr>cp_name = Some ''team'', cp_description = None, cp_participantIds = [2, 7]\<rparr>)"
    by (simp add: int4_max_def)
  show ?thesis
    using a b e r invalid_participant_leaves_conversation [OF a b r c e, of 50] by simp
qed

text \<open>
  C6, as stated: when every listed id names a user the call succeeds, and ids listed twice
  are added once. User 1 creates a conversation with the list \<open>[2, 2]\<close>; user 2 exists,
  yet the handler answers 400: it finds one user for two list entries.
\<close>

theorem duplicate_ids_counterexample:
  "find_user demo 1 \<noteq> None \<and> find_user demo 2 \<noteq> None \<and>
   fst (store_conversation demo 1
          \<lparr>cp_name = None, cp_description = None, cp_participantIds = [2, 2]\<rparr> 50) =
     BadRequest ''One or more participant IDs are invalid''"
  by (simp add: store_conversation_def create_conversation_def insert_participant_def
      demo_eval read_eval)

text \<open>
  C6, amended: in a consistent store, when an existing user creates a conversation with a
  non-empty list of participant ids in which the ids other than the creator's are pairwise
  different and all name users, the handler answers 201 and the new conversation has
  exactly these participant rows: one for the creator, then one for each listed id other
  than the creator's. Entries equal to the creator's id are skipped, however often they
  occur.
\<close>

theorem store_adds_listed_participants:
  assumes "consistent d"
    and "find_user d user_id \<noteq> None"
    and "cp_participantIds payload \<noteq> []"
    and "distinct (filter (\<lambda>i. i \<noteq> user_id) (cp_participantIds payload))"
    and "\<forall>i \<in> set (cp_participantIds payload). \<exists>u. User_find d (JNum i) = Inr (Some u)"
  shows "\<exists>v d'. store_conversation d user_id payload now =
                   (Created (ConversationBody v), d') \<and>
                c_id (cv_row v) = conversation_seq d \<and>
                map p_userId
                  (filter (\<lambda>p. p_conversationId p = conversation_seq d)
                     (conversation_participants d')) =
                  user_id # filter (\<lambda>i. i \<noteq> user_id) (cp_participantIds payload)"
proof -
  let ?seq = "conversation_seq d"
  let ?ids = "filter (\<lambda>i. i \<noteq> user_id) (cp_participantIds payload)"
  let ?mine = "\<lambda>p. p_conversationId p = ?seq"
  from store_started [OF assms(1,2), of "cp_name payload" "cp_description payload" now]
  obtain c d1 d2 row where
    st: "create_conversation d (cp_name payload) (cp_description payload) user_id now = (c, d1)"
      "c = \<lparr>c_id = ?seq, c_name = cp_name payload, c_description = cp_description payload,
            c_createdBy = user_id, c_createdAt = now, c_updatedAt = now\<rparr>"
      "insert_participant d1 ?seq user_id now = Inr d2"
      "users d2 = users d" "conversations d2 = conversations d @ [c]"
      "conversation_participants d2 = conversation_participants d @ [row]"
      "p_conversationId row = ?seq" "p_userId row = user_id"
    by blast
  have cid: "c_id c = ?seq" using st(2) by simp
  have named: "\<And>i. i \<in> set (cp_participantIds payload) \<Longrightarrow>
      i \<le> int4_max \<and> find_user d i \<noteq> None"
  proof -
    fix i assume "i \<in> set (cp_participantIds payload)"
    then obtain u where "User_find d (JNum i) = Inr (Some u)" using assms(5) by blast
    then show "i \<le> int4_max \<and> find_user d i \<noteq> None"
      using by_id_JNum_Some [of i "find_user d" u] by (simp add: User_find_def)
  qed
  have base: "map p_userId (filter ?mine (conversation_participants d2)) = [user_id]"
    unfolding st(6) using fresh_conversation(2) [OF assms(1)] st(7,8) by simp
  show ?thesis
  proof (cases "?ids = []")
    case True
    have run: "store_conversation d user_id payload now =
        (Created (ConversationBody (load_conversation d2 c)), d2)"
      unfolding store_conversation_def using True assms(3) st(1,3) cid by (simp add: Let_def)
    have v: "c_id (cv_row (load_conversation d2 c)) = ?seq"
      using cid by (simp add: load_conversation_def)
    have all: "map p_userId (filter ?mine (conversation_participants d2)) = user_id # ?ids"
      using base True by simp
    from run v all show ?thesis
      by (intro exI [of _ "load_conversation d2 c"] exI [of _ d2] conjI)
  next
    case False
    have du: "distinct (map u_id (users d))" using assms(1) by (simp add: consistent_def)
    have sub: "set ?ids \<subseteq> set (map u_id (users d))"
    proof
      fix i assume "i \<in> set ?ids"
      then have "find_user d i \<noteq> None" using named [of i] by simp
      then show "i \<in> set (map u_id (users d))" by (simp only: find_user_iff)
    qed
    have len: "length (filter (\<lambda>u. u_id u \<in> set ?ids) (users d2)) = length ?ids"
      unfolding st(4) by (rule found_length_eq [OF du assms(4) sub])
    have "list_all (\<lambda>i. i \<le> int4_max) ?ids"
      using named by (simp add: list_all_iff)
    then have wi: "User_whereIn d2 ?ids = Inr (filter (\<lambda>u. u_id u \<in> set ?ids) (users d2))"
      by (simp add: User_whereIn_def)
    have "\<exists>x \<in> set (conversations d @ [c]). c_id x = ?seq"
      using cid by (intro bexI [of _ c]) simp_all
    then have a: "find_conversation d2 ?seq \<noteq> None"
      unfolding find_conversation_def find_None_iff st(5) by blast
    have b: "\<forall>i \<in> set ?ids. find_user d2 i \<noteq> None"
      using named unfolding find_user_def st(4) by simp
    have e: "\<forall>i \<in> set ?ids. first_participant d2 ?seq i = None"
    proof
      fix i assume "i \<in> set ?ids"
      then have "i \<noteq> user_id" by simp
      then show "first_participant d2 ?seq i = None"
        using fresh_conversation(3) [OF assms(1), of i] st(8)
        unfolding first_participant_def st(6) by (simp add: find_append_None)
    qed
    from createMany_distinct [OF a b assms(4) e, of now] obtain d3 rows where
      cm: "createMany d2 (map (\<lambda>i. (?seq, i, now)) ?ids) = Inr d3"
        "conversation_participants d3 = conversation_participants d2 @ rows"
        "map p_userId rows = ?ids" "list_all (\<lambda>r. p_conversationId r = ?seq) rows"
      by blast
    have "filter ?mine rows = rows"
      using cm(4) by (simp add: list_all_iff)
    then have all: "map p_userId (filter ?mine (conversation_participants d3)) = user_id # ?ids"
      unfolding cm(2) using base cm(3) by simp
    have pos: "0 < length ?ids" using False by simp
    have run: "store_conversation d user_id payload now =
        (Created (ConversationBody (load_conversation d3 c)), d3)"
      unfolding store_conversation_def using assms(3) pos len wi st(1,3) cm(1) cid
      by (simp add: Let_def)
    have v: "c_id (cv_row (load_conversation d3 c)) = ?seq"
      using cid by (simp add: load_conversation_def)
    from run v all show ?thesis
      by (intro exI [of _ "load_conversation d3 c"] exI [of _ d3] conjI)
  qed
qed

theorem store_adds_listed_participants_witness:
  "consistent demo \<and> find_user demo 1 \<noteq> None \<and>
   (\<exists>u. User_find demo (JNum 2) = Inr (Some u)) \<and>
   (\<exists>u. User_find demo (JNum 3) = Inr (Some u)) \<and>
   conversation_seq demo = 3 \<and>
   (\<exists>v d'. store_conversation demo 1
              \<lparr>cp_name = Some ''team'', cp_description = None,
               cp_participantIds = [1, 3, 1, 2]\<rparr> 50 =
                   (Created (ConversationBody v), d') \<and>
                c_id (cv_row v) = conversation_seq demo \<and>
                map p_userId
                  (filter (\<lambda>p. p_conversationId p = conversation_seq demo)
                     (conversation_participants d')) =
                  [1, 3, 2])"
proof -
  let ?payload = "\<lparr>cp_name = Some ''team'', cp_description = None,
                   cp_participantIds = [1, 3, 1, 2]\<rparr>"
  have a: "consistent demo" by (simp add: consistent_def demo_def)
  have b: "find_user demo 1 \<noteq> None" by (simp add: demo_eval)
  have u1: "\<exists>u. User_find demo (JNum 1) = Inr (Some u)" by (simp add: demo_eval read_eval)
  have u2: "\<exists>u. User_find demo (JNum 2) = Inr (Some u)" by (simp add: demo_eval read_eval)
  have u3: "\<exists>u. User_find demo (JNum 3) = Inr (Some u)" by (simp add: demo_eval read_eval)
  have c: "cp_participantIds ?payload \<noteq> []" by simp
  have e: "distinct (filter (\<lambda>i. i \<noteq> 1) (cp_participantIds ?payload))" by simp
  have f: "\<forall>i \<in> set (cp_participantIds ?payload). \<exists>u. User_find demo (JNum i) = Inr (Some u)"
    using u1 u2 u3 by simp
  have s: "conversation_seq demo = 3" by (simp add: demo_def)
  have ids: "(1::nat) # filter (\<lambda>i. i \<noteq> 1) (cp_participantIds ?payload) = [1, 3, 2]"
    by simp
  from store_adds_listed_participants [OF a b c e f, of 50]
  have "\<exists>v d'. store_conversation demo 1 ?payload 50 = (Created (ConversationBody v), d') \<and>
                c_id (cv_row v) = conversation_seq demo \<and>
                map p_userId
                  (filter (\<lambda>p. p_conversationId p = conversation_seq demo)
                     (conversation_participants d')) = [1, 3, 2]"
    unfolding ids .
  with a b u2 u3 s show ?thesis by (intro conjI)
qed

end
